theory Spec2Isabelle
  imports Main "HOL-Library.Word"
begin

section \<open>JavaScript values\<close>

text \<open>
  The code looks at a number in two ways only: it tests it (\<open>if (n)\<close>, \<open>n || d\<close>) and it
  prints it (\<open>toString()\<close>, a template literal, \<open>String\<close>). A number is therefore one of
  \<^item> an integer from \<open>-2^53\<close> to \<open>2^53 - 1\<close>, which JavaScript holds exactly and prints with
    all its digits (a 54-bit word read as a signed integer; \<open>-0\<close> tests and prints as 0);
  \<^item> \<open>NaN\<close>, which is not equal to 0 and still tests false;
  \<^item> any other number (a fraction, an infinity, an integer outside that range), which
    tests true and prints as the text it carries, such as \<open>1.5\<close>, \<open>Infinity\<close> or
    \<open>1e+21\<close>.
\<close>

datatype js_number =
  Integer "54 word"
  | NaN
  | Other string

fun number_truthy :: "js_number \<Rightarrow> bool" where
  "number_truthy (Integer i) = (i \<noteq> 0)"
| "number_truthy NaN = False"
| "number_truthy (Other s) = True"

definition digit_char :: "nat \<Rightarrow> char" where
  "digit_char n = ''0123456789'' ! n"

function dec :: "nat \<Rightarrow> string" where
  "dec n = (if n < 10 then [digit_char n] else dec (n div 10) @ [digit_char (n mod 10)])"
  by pat_completeness auto
termination
  by (relation "measure id") auto

declare dec.simps [simp del]

fun number_toString :: "js_number \<Rightarrow> string" where
  "number_toString (Integer i) =
     (if sint i < 0 then CHR ''-'' # dec (nat (- sint i)) else dec (nat (sint i)))"
| "number_toString NaN = ''NaN''"
| "number_toString (Other s) = s"

text \<open>
  The services pass JSON through and inspect it with \<open>?.\<close> and \<open>||\<close>. A JSON value is
  a \<open>json\<close>; JavaScript's \<open>undefined\<close> is \<open>None\<close> of \<open>json option\<close>. An object is the
  list of its own properties; the first binding of a key is the property.
\<close>

datatype json =
  JNull
  | JBool bool
  | JNum js_number
  | JStr string
  | JArr "json list"
  | JObj "(string \<times> json) list"

text \<open>Truthiness, as \<open>x || y\<close> and \<open>if (x)\<close> test it.\<close>

fun truthy :: "json option \<Rightarrow> bool" where
  "truthy None = False"
| "truthy (Some JNull) = False"
| "truthy (Some (JBool b)) = b"
| "truthy (Some (JNum n)) = number_truthy n"
| "truthy (Some (JStr s)) = (s \<noteq> [])"
| "truthy (Some (JArr xs)) = True"
| "truthy (Some (JObj kvs)) = True"

text \<open>\<open>x?.key\<close>: a property of an object, \<open>undefined\<close> on null, on a primitive and on
  an array (for the keys read here: \<open>detail\<close>, \<open>invoices\<close>).\<close>

fun optional_prop :: "json \<Rightarrow> string \<Rightarrow> json option" where
  "optional_prop (JObj kvs) k = map_of kvs k"
| "optional_prop v k = None"

fun join :: "string \<Rightarrow> string list \<Rightarrow> string" where
  "join sep [] = []"
| "join sep [x] = x"
| "join sep (x # y # ys) = x @ sep @ join sep (y # ys)"

text \<open>\<open>process.env.REACT_APP_API_URL || fallback\<close>.\<close>

definition env_or :: "string option \<Rightarrow> string \<Rightarrow> string" where
  "env_or v fallback = (case v of None \<Rightarrow> fallback | Some s \<Rightarrow> if s = [] then fallback else s)"

section \<open>HTTP through axios\<close>

datatype http_verb = GET | POST | PUT

record js_file =
  file_name :: string
  file_type :: string
  file_size :: nat

datatype payload =
  NoBody
  | JsonBody json
  | FormData "(string \<times> js_file) list"

record request =
  verb :: http_verb
  url :: string
  body :: payload
  headers :: "(string \<times> string) list"

record response =
  status :: nat
  data :: json

text \<open>
  What a \<open>catch\<close> block receives: an axios error (with the server's response, or without
  one when the network failed), a \<open>TypeError\<close> raised by reading a property of null,
  or an \<open>Error\<close> made by \<open>new Error(message)\<close>.
\<close>

datatype js_error =
  AxiosError "response option"
  | TypeError
  | Error string

text \<open>\<open>error.response?.status\<close> and \<open>error.response?.data?.detail\<close>.\<close>

fun response_status :: "js_error \<Rightarrow> nat option" where
  "response_status (AxiosError (Some r)) = Some (status r)"
| "response_status e = None"

fun response_detail :: "js_error \<Rightarrow> json option" where
  "response_detail (AxiosError (Some r)) = optional_prop (data r) ''detail''"
| "response_detail e = None"

text \<open>
  \<open>String(v)\<close>, which \<open>new Error(v)\<close> applies to its message. An object of the JSON has
  no callable \<open>toString\<close> of its own: with an own \<open>toString\<close> property the conversion
  raises a \<open>TypeError\<close>, without one the inherited method prints \<open>[object Object]\<close>. An
  array prints its elements joined by commas, null as the empty text, and raises when an
  element does.
\<close>

fun js_to_string :: "json \<Rightarrow> js_error + string"
  and js_elements :: "json list \<Rightarrow> js_error + string list" where
  "js_to_string JNull = Inr ''null''"
| "js_to_string (JBool b) = Inr (if b then ''true'' else ''false'')"
| "js_to_string (JNum n) = Inr (number_toString n)"
| "js_to_string (JStr s) = Inr s"
| "js_to_string (JArr xs) =
     (case js_elements xs of Inl e \<Rightarrow> Inl e | Inr ss \<Rightarrow> Inr (join '','' ss))"
| "js_to_string (JObj kvs) =
     (case map_of kvs ''toString'' of
        None \<Rightarrow> Inr ''[object Object]''
      | Some v \<Rightarrow> Inl TypeError)"
| "js_elements [] = Inr []"
| "js_elements (x # xs) =
     (case (if x = JNull then Inr [] else js_to_string x) of
        Inl e \<Rightarrow> Inl e
      | Inr s \<Rightarrow> (case js_elements xs of Inl e \<Rightarrow> Inl e | Inr ss \<Rightarrow> Inr (s # ss)))"

text \<open>\<open>new Error(v || fallback)\<close>, as the value the enclosing \<open>throw\<close> statement
  raises: the \<open>Error\<close> it made, or the \<open>TypeError\<close> that making it raised.\<close>

definition error_or :: "json option \<Rightarrow> string \<Rightarrow> js_error" where
  "error_or v fallback =
     (case v of
        None \<Rightarrow> Error fallback
      | Some x \<Rightarrow>
          if truthy (Some x)
          then (case js_to_string x of Inr m \<Rightarrow> Error m | Inl e \<Rightarrow> e)
          else Error fallback)"

text \<open>
  The browser and the network: \<open>localStorage\<close>, the requests issued so far, the
  notifications shown and the router's location. The server answers a request knowing
  the earlier ones, so a repeated request may be answered differently.
  \<open>console.error\<close> output and object URLs are not modelled.
\<close>

record world =
  localStorage :: "string \<rightharpoonup> string"
  requests :: "request list"
  notifications :: "(string \<times> string) list"
  location :: string

type_synonym server = "request list \<Rightarrow> request \<Rightarrow> js_error + response"

definition axios :: "server \<Rightarrow> request \<Rightarrow> world \<Rightarrow> (js_error + response) \<times> world" where
  "axios srv r w = (srv (requests w) r, w\<lparr>requests := requests w @ [r]\<rparr>)"

section \<open>authService.ts: AuthService\<close>

definition authService_API_BASE_URL :: "string option \<Rightarrow> string" where
  "authService_API_BASE_URL env = env_or env ''https://docbot-enterprise-backend.onrender.com''"

definition AuthService_getAuthHeaders :: "string \<Rightarrow> (string \<times> string) list" where
  "AuthService_getAuthHeaders token =
     [(''Authorization'', ''Bearer '' @ token), (''Content-Type'', ''application/json'')]"

definition login_request :: "string option \<Rightarrow> string \<Rightarrow> string \<Rightarrow> request" where
  "login_request env email password =
     \<lparr>verb = POST, url = authService_API_BASE_URL env @ ''/api/v1/auth/login'',
      body = JsonBody (JObj [(''email'', JStr email), (''password'', JStr password)]),
      headers = []\<rparr>"

definition login ::
  "string option \<Rightarrow> server \<Rightarrow> string \<Rightarrow> string \<Rightarrow> world \<Rightarrow> (js_error + json) \<times> world" where
  "login env srv email password w =
     (case axios srv (login_request env email password) w of
        (Inr resp, w') \<Rightarrow> (Inr (data resp), w')
      | (Inl err, w') \<Rightarrow>
          (if response_status err = Some 401 then Inl (Error ''Invalid email or password'')
           else Inl (error_or (response_detail err) ''Login failed''), w'))"

definition getCurrentUser_request :: "string option \<Rightarrow> string \<Rightarrow> request" where
  "getCurrentUser_request env token =
     \<lparr>verb = GET, url = authService_API_BASE_URL env @ ''/api/v1/users/me'',
      body = NoBody, headers = AuthService_getAuthHeaders token\<rparr>"

definition getCurrentUser ::
  "string option \<Rightarrow> server \<Rightarrow> string \<Rightarrow> world \<Rightarrow> (js_error + json) \<times> world" where
  "getCurrentUser env srv token w =
     (case axios srv (getCurrentUser_request env token) w of
        (Inr resp, w') \<Rightarrow> (Inr (data resp), w')
      | (Inl err, w') \<Rightarrow>
          (if response_status err = Some 401 then Inl (Error ''Invalid or expired token'')
           else Inl (error_or (response_detail err) ''Failed to get user data''), w'))"

definition refreshToken_request :: "string option \<Rightarrow> string \<Rightarrow> request" where
  "refreshToken_request env token =
     \<lparr>verb = POST, url = authService_API_BASE_URL env @ ''/api/v1/auth/refresh'',
      body = JsonBody (JObj []), headers = AuthService_getAuthHeaders token\<rparr>"

definition refreshToken ::
  "string option \<Rightarrow> server \<Rightarrow> string \<Rightarrow> world \<Rightarrow> (js_error + json) \<times> world" where
  "refreshToken env srv token w =
     (case axios srv (refreshToken_request env token) w of
        (Inr resp, w') \<Rightarrow> (Inr (data resp), w')
      | (Inl err, w') \<Rightarrow> (Inl (error_or (response_detail err) ''Token refresh failed''), w'))"

definition register_request :: "string option \<Rightarrow> json \<Rightarrow> request" where
  "register_request env userData =
     \<lparr>verb = POST, url = authService_API_BASE_URL env @ ''/api/v1/auth/register'',
      body = JsonBody userData, headers = []\<rparr>"

definition register ::
  "string option \<Rightarrow> server \<Rightarrow> json \<Rightarrow> world \<Rightarrow> (js_error + json) \<times> world" where
  "register env srv userData w =
     (case axios srv (register_request env userData) w of
        (Inr resp, w') \<Rightarrow> (Inr (data resp), w')
      | (Inl err, w') \<Rightarrow>
          (if response_status err = Some 400
           then Inl (error_or (response_detail err) ''Registration failed'')
           else Inl (Error ''Registration failed''), w'))"

definition forgotPassword_request :: "string option \<Rightarrow> string \<Rightarrow> request" where
  "forgotPassword_request env email =
     \<lparr>verb = POST, url = authService_API_BASE_URL env @ ''/api/v1/auth/forgot-password'',
      body = JsonBody (JObj [(''email'', JStr email)]), headers = []\<rparr>"

definition forgotPassword ::
  "string option \<Rightarrow> server \<Rightarrow> string \<Rightarrow> world \<Rightarrow> (js_error + unit) \<times> world" where
  "forgotPassword env srv email w =
     (case axios srv (forgotPassword_request env email) w of
        (Inr resp, w') \<Rightarrow> (Inr (), w')
      | (Inl err, w') \<Rightarrow> (Inl (error_or (response_detail err) ''Failed to send reset email''), w'))"

definition resetPassword_request :: "string option \<Rightarrow> string \<Rightarrow> string \<Rightarrow> request" where
  "resetPassword_request env token password =
     \<lparr>verb = POST, url = authService_API_BASE_URL env @ ''/api/v1/auth/reset-password'',
      body = JsonBody (JObj [(''token'', JStr token), (''password'', JStr password)]),
      headers = []\<rparr>"

definition resetPassword ::
  "string option \<Rightarrow> server \<Rightarrow> string \<Rightarrow> string \<Rightarrow> world \<Rightarrow> (js_error + unit) \<times> world" where
  "resetPassword env srv token password w =
     (case axios srv (resetPassword_request env token password) w of
        (Inr resp, w') \<Rightarrow> (Inr (), w')
      | (Inl err, w') \<Rightarrow> (Inl (error_or (response_detail err) ''Failed to reset password''), w'))"

definition updateProfile_request :: "string option \<Rightarrow> string \<Rightarrow> json \<Rightarrow> request" where
  "updateProfile_request env token userData =
     \<lparr>verb = PUT, url = authService_API_BASE_URL env @ ''/api/v1/users/me'',
      body = JsonBody userData, headers = AuthService_getAuthHeaders token\<rparr>"

definition updateProfile ::
  "string option \<Rightarrow> server \<Rightarrow> string \<Rightarrow> json \<Rightarrow> world \<Rightarrow> (js_error + json) \<times> world" where
  "updateProfile env srv token userData w =
     (case axios srv (updateProfile_request env token userData) w of
        (Inr resp, w') \<Rightarrow> (Inr (data resp), w')
      | (Inl err, w') \<Rightarrow> (Inl (error_or (response_detail err) ''Failed to update profile''), w'))"

definition changePassword_request ::
  "string option \<Rightarrow> string \<Rightarrow> string \<Rightarrow> string \<Rightarrow> request" where
  "changePassword_request env token currentPassword newPassword =
     \<lparr>verb = POST, url = authService_API_BASE_URL env @ ''/api/v1/auth/change-password'',
      body = JsonBody (JObj [(''current_password'', JStr currentPassword),
                             (''new_password'', JStr newPassword)]),
      headers = AuthService_getAuthHeaders token\<rparr>"

definition changePassword ::
  "string option \<Rightarrow> server \<Rightarrow> string \<Rightarrow> string \<Rightarrow> string \<Rightarrow> world
     \<Rightarrow> (js_error + unit) \<times> world" where
  "changePassword env srv token currentPassword newPassword w =
     (case axios srv (changePassword_request env token currentPassword newPassword) w of
        (Inr resp, w') \<Rightarrow> (Inr (), w')
      | (Inl err, w') \<Rightarrow>
          (if response_status err = Some 400 then Inl (Error ''Current password is incorrect'')
           else Inl (error_or (response_detail err) ''Failed to change password''), w'))"

section \<open>invoiceService.ts: InvoiceService\<close>

definition invoiceService_API_BASE_URL :: "string option \<Rightarrow> string" where
  "invoiceService_API_BASE_URL env = env_or env ''http://localhost:8000''"

text \<open>\<open>localStorage.getItem\<close> gives null for a missing key, and the template literal
  prints null as the four letters.\<close>

definition template_of_item :: "string option \<Rightarrow> string" where
  "template_of_item v = (case v of None \<Rightarrow> ''null'' | Some s \<Rightarrow> s)"

definition InvoiceService_getAuthHeaders :: "world \<Rightarrow> (string \<times> string) list" where
  "InvoiceService_getAuthHeaders w =
     [(''Authorization'', ''Bearer '' @ template_of_item (localStorage w ''docbot_token''))]"

definition uploadInvoice_request :: "string option \<Rightarrow> js_file \<Rightarrow> world \<Rightarrow> request" where
  "uploadInvoice_request env f w =
     \<lparr>verb = POST, url = invoiceService_API_BASE_URL env @ ''/api/v1/invoices/upload'',
      body = FormData [(''file'', f)],
      headers = InvoiceService_getAuthHeaders w @ [(''Content-Type'', ''multipart/form-data'')]\<rparr>"

definition uploadInvoice ::
  "string option \<Rightarrow> server \<Rightarrow> js_file \<Rightarrow> world \<Rightarrow> (js_error + json) \<times> world" where
  "uploadInvoice env srv f w =
     (case axios srv (uploadInvoice_request env f w) w of
        (Inr resp, w') \<Rightarrow> (Inr (data resp), w')
      | (Inl err, w') \<Rightarrow>
          (if response_status err = Some 401 then Inl (Error ''Authentication required'')
           else Inl (error_or (response_detail err) ''Failed to upload invoice''), w'))"

text \<open>
  \<open>URLSearchParams\<close>: the appended pairs in order, printed by the
  application/x-www-form-urlencoded serializer (a space is \<open>+\<close>, letters, digits and
  \<open>*-._\<close> stay, every other byte is \<open>%XX\<close>).
\<close>

definition hex_digit :: "nat \<Rightarrow> char" where
  "hex_digit n = ''0123456789ABCDEF'' ! n"

definition urlencoded_keeps :: "char \<Rightarrow> bool" where
  "urlencoded_keeps c =
     (let n = (of_char c :: nat) in
        (48 \<le> n \<and> n \<le> 57) \<or> (65 \<le> n \<and> n \<le> 90) \<or> (97 \<le> n \<and> n \<le> 122)
        \<or> n = 42 \<or> n = 45 \<or> n = 46 \<or> n = 95)"

definition urlencode_char :: "char \<Rightarrow> string" where
  "urlencode_char c =
     (if c = CHR '' '' then ''+''
      else if urlencoded_keeps c then [c]
      else [CHR ''%'', hex_digit ((of_char c :: nat) div 16), hex_digit ((of_char c :: nat) mod 16)])"

definition urlencode :: "string \<Rightarrow> string" where
  "urlencode s = concat (map urlencode_char s)"

definition URLSearchParams_toString :: "(string \<times> string) list \<Rightarrow> string" where
  "URLSearchParams_toString ps =
     join ''&'' (map (\<lambda>(k, v). urlencode k @ ''='' @ urlencode v) ps)"

text \<open>The optional argument of \<open>getInvoices\<close>; an absent field is \<open>None\<close>.\<close>

record invoice_query =
  skip :: "js_number option"
  limit :: "js_number option"
  status_filter :: "string option"

text \<open>\<open>if (params?.skip) queryParams.append('skip', params.skip.toString())\<close> and its
  two siblings.\<close>

definition getInvoices_queryParams :: "invoice_query option \<Rightarrow> (string \<times> string) list" where
  "getInvoices_queryParams params =
     (case params of
        None \<Rightarrow> []
      | Some p \<Rightarrow>
          (case skip p of
             None \<Rightarrow> []
           | Some n \<Rightarrow> if number_truthy n then [(''skip'', number_toString n)] else [])
          @ (case limit p of
               None \<Rightarrow> []
             | Some n \<Rightarrow> if number_truthy n then [(''limit'', number_toString n)] else [])
          @ (case status_filter p of
               None \<Rightarrow> []
             | Some s \<Rightarrow> if s \<noteq> [] then [(''status_filter'', s)] else []))"

definition getInvoices_request :: "string option \<Rightarrow> invoice_query option \<Rightarrow> world \<Rightarrow> request" where
  "getInvoices_request env params w =
     \<lparr>verb = GET,
      url = invoiceService_API_BASE_URL env @ ''/api/v1/invoices?''
            @ URLSearchParams_toString (getInvoices_queryParams params),
      body = NoBody, headers = InvoiceService_getAuthHeaders w\<rparr>"

definition getInvoices ::
  "string option \<Rightarrow> server \<Rightarrow> invoice_query option \<Rightarrow> world \<Rightarrow> (js_error + json) \<times> world" where
  "getInvoices env srv params w =
     (case axios srv (getInvoices_request env params w) w of
        (Inr resp, w') \<Rightarrow> (Inr (data resp), w')
      | (Inl err, w') \<Rightarrow> (Inl (error_or (response_detail err) ''Failed to get invoices''), w'))"

definition getInvoice_request :: "string option \<Rightarrow> js_number \<Rightarrow> world \<Rightarrow> request" where
  "getInvoice_request env invoiceId w =
     \<lparr>verb = GET,
      url = invoiceService_API_BASE_URL env @ ''/api/v1/invoices/'' @ number_toString invoiceId,
      body = NoBody, headers = InvoiceService_getAuthHeaders w\<rparr>"

definition getInvoice ::
  "string option \<Rightarrow> server \<Rightarrow> js_number \<Rightarrow> world \<Rightarrow> (js_error + json) \<times> world" where
  "getInvoice env srv invoiceId w =
     (case axios srv (getInvoice_request env invoiceId w) w of
        (Inr resp, w') \<Rightarrow> (Inr (data resp), w')
      | (Inl err, w') \<Rightarrow> (Inl (error_or (response_detail err) ''Failed to get invoice''), w'))"

definition approveInvoice_request :: "string option \<Rightarrow> js_number \<Rightarrow> world \<Rightarrow> request" where
  "approveInvoice_request env invoiceId w =
     \<lparr>verb = PUT,
      url = invoiceService_API_BASE_URL env @ ''/api/v1/invoices/''
            @ number_toString invoiceId @ ''/approve'',
      body = JsonBody (JObj []), headers = InvoiceService_getAuthHeaders w\<rparr>"

definition approveInvoice ::
  "string option \<Rightarrow> server \<Rightarrow> js_number \<Rightarrow> world \<Rightarrow> (js_error + json) \<times> world" where
  "approveInvoice env srv invoiceId w =
     (case axios srv (approveInvoice_request env invoiceId w) w of
        (Inr resp, w') \<Rightarrow> (Inr (data resp), w')
      | (Inl err, w') \<Rightarrow> (Inl (error_or (response_detail err) ''Failed to approve invoice''), w'))"

section \<open>dashboardService.ts: DashboardService\<close>

definition dashboardService_API_BASE_URL :: "string option \<Rightarrow> string" where
  "dashboardService_API_BASE_URL env =
     env_or env ''https://docbot-enterprise-backend.onrender.com''"

definition DashboardService_getAuthHeaders :: "world \<Rightarrow> (string \<times> string) list" where
  "DashboardService_getAuthHeaders w =
     [(''Authorization'', ''Bearer '' @ template_of_item (localStorage w ''docbot_token'')),
      (''Content-Type'', ''application/json'')]"

definition getStats_request :: "string option \<Rightarrow> world \<Rightarrow> request" where
  "getStats_request env w =
     \<lparr>verb = GET, url = dashboardService_API_BASE_URL env @ ''/api/v1/stats/dashboard'',
      body = NoBody, headers = DashboardService_getAuthHeaders w\<rparr>"

definition getStats ::
  "string option \<Rightarrow> server \<Rightarrow> world \<Rightarrow> (js_error + json) \<times> world" where
  "getStats env srv w =
     (case axios srv (getStats_request env w) w of
        (Inr resp, w') \<Rightarrow> (Inr (data resp), w')
      | (Inl err, w') \<Rightarrow>
          (if response_status err = Some 401 then Inl (Error ''Authentication required'')
           else Inl (error_or (response_detail err) ''Failed to get dashboard stats''), w'))"

text \<open>
  \<open>response.data.invoices || []\<close>, inside the \<open>try\<close>: reading \<open>invoices\<close> of a null
  body raises a \<open>TypeError\<close>, which the method's own \<open>catch\<close> receives.
\<close>

definition invoices_or_empty :: "json \<Rightarrow> js_error + json" where
  "invoices_or_empty d =
     (if d = JNull then Inl TypeError
      else (case optional_prop d ''invoices'' of
              None \<Rightarrow> Inr (JArr [])
            | Some v \<Rightarrow> if truthy (Some v) then Inr v else Inr (JArr [])))"

definition getRecentInvoices_catch :: "js_error \<Rightarrow> js_error" where
  "getRecentInvoices_catch err =
     (if response_status err = Some 401 then Error ''Authentication required''
      else error_or (response_detail err) ''Failed to get recent invoices'')"

text \<open>The default parameter \<open>limit: number = 10\<close>: an omitted argument is \<open>None\<close>.\<close>

definition getRecentInvoices_request ::
  "string option \<Rightarrow> js_number option \<Rightarrow> world \<Rightarrow> request" where
  "getRecentInvoices_request env limit_arg w =
     \<lparr>verb = GET,
      url = dashboardService_API_BASE_URL env @ ''/api/v1/invoices?limit=''
            @ number_toString (case limit_arg of None \<Rightarrow> Integer 10 | Some n \<Rightarrow> n),
      body = NoBody, headers = DashboardService_getAuthHeaders w\<rparr>"

definition getRecentInvoices ::
  "string option \<Rightarrow> server \<Rightarrow> js_number option \<Rightarrow> world \<Rightarrow> (js_error + json) \<times> world" where
  "getRecentInvoices env srv limit_arg w =
     (case axios srv (getRecentInvoices_request env limit_arg w) w of
        (Inr resp, w') \<Rightarrow>
          (case invoices_or_empty (data resp) of
             Inr v \<Rightarrow> (Inr v, w')
           | Inl err \<Rightarrow> (Inl (getRecentInvoices_catch err), w'))
      | (Inl err, w') \<Rightarrow> (Inl (getRecentInvoices_catch err), w'))"

section \<open>AuthContext: AuthProvider\<close>

text \<open>The provider's three state variables; \<open>null\<close> is \<open>None\<close>.\<close>

record auth_state =
  user :: "json option"
  token :: "string option"
  loading :: bool




definition logout :: "auth_state \<Rightarrow> world \<Rightarrow> auth_state \<times> world" where
  "logout s w =
     (s\<lparr>user := None, token := None\<rparr>,
      w\<lparr>localStorage := (localStorage w)(''docbot_token'' := None)\<rparr>)"


section \<open>components/ProtectedRoute\<close>


section \<open>pages/InvoiceUpload.tsx\<close>

record uploaded_file =
  ufile :: js_file
  preview :: "string option"

text \<open>\<open>uploadProgress\<close> is a percentage; the values \<open>setUploadProgress\<close> writes while
  the uploads run are overwritten by the \<open>finally\<close> block before \<open>handleUpload\<close>
  settles, and the state here is the state at that moment.\<close>

record upload_state =
  files :: "uploaded_file list"
  uploading :: bool
  uploadProgress :: nat

text \<open>
  \<open>files.map(async ...)\<close> calls \<open>invoiceService.uploadInvoice\<close> for every file, in the
  order of the list, before the first answer is awaited; \<open>Promise.all\<close> then waits.
  Each answer is the server's to that request after the ones issued before it.
\<close>

fun upload_all ::
  "string option \<Rightarrow> server \<Rightarrow> js_file list \<Rightarrow> world \<Rightarrow> (js_error + json) list \<times> world" where
  "upload_all env srv [] w = ([], w)"
| "upload_all env srv (f # fs) w =
     (case uploadInvoice env srv f w of
        (r, w1) \<Rightarrow> (case upload_all env srv fs w1 of (rs, w2) \<Rightarrow> (r # rs, w2)))"

text \<open>\<open>error.response?.data?.detail || 'Failed to upload invoices'\<close>, as the text of the
  notification. When several uploads fail, \<open>catch\<close> receives the rejection that comes
  first in time; the model takes the first in the list. Every value \<open>uploadInvoice\<close>
  throws is an \<open>Error\<close> or a \<open>TypeError\<close>, neither of which has a \<open>response\<close>, so the
  notification is the same for each of them (lemma \<open>uploadInvoice_failure_notice\<close>).\<close>

definition upload_failure_notice :: "js_error \<Rightarrow> string" where
  "upload_failure_notice err =
     (case error_or (response_detail err) ''Failed to upload invoices'' of
        Error m \<Rightarrow> m
      | other \<Rightarrow> ''Failed to upload invoices'')"

definition upload_success_notice :: "nat \<Rightarrow> string" where
  "upload_success_notice n =
     ''Successfully uploaded '' @ dec n @ '' invoice'' @ (if n > 1 then ''s'' else [])"

definition showNotification :: "string \<Rightarrow> string \<Rightarrow> world \<Rightarrow> world" where
  "showNotification message kind w = w\<lparr>notifications := notifications w @ [(message, kind)]\<rparr>"

definition navigate :: "string \<Rightarrow> world \<Rightarrow> world" where
  "navigate path w = w\<lparr>location := path\<rparr>"

definition handleUpload ::
  "string option \<Rightarrow> server \<Rightarrow> upload_state \<Rightarrow> world \<Rightarrow> upload_state \<times> world" where
  "handleUpload env srv st w =
     (if length (files st) = 0
      then (st, showNotification ''Please select at least one file to upload'' ''error'' w)
      else
        (case upload_all env srv (map ufile (files st)) w of
           (results, w1) \<Rightarrow>
             (case find isl results of
                None \<Rightarrow>
                  (st\<lparr>files := [], uploading := False, uploadProgress := 0\<rparr>,
                   navigate ''/invoices''
                     (showNotification (upload_success_notice (length results)) ''success'' w1))
              | Some failed \<Rightarrow>
                  (st\<lparr>uploading := False, uploadProgress := 0\<rparr>,
                   showNotification (upload_failure_notice (projl failed)) ''error'' w1))))"

section \<open>pages/Dashboard.tsx\<close>

record dashboard_state =
  stats :: "json option"
  recentInvoices :: json
  dashboard_loading :: bool


section \<open>App.js: the demo Dashboard\<close>

record demo_stats =
  total_invoices :: js_number
  pending_review :: js_number
  approved_invoices :: js_number
  total_amount :: string

text \<open>\<open>useState(null)\<close>, and the mount effect that stores the mock statistics.\<close>

definition Dashboard_initial :: "demo_stats option" where
  "Dashboard_initial = None"

definition Dashboard_effect :: "demo_stats option \<Rightarrow> demo_stats option" where
  "Dashboard_effect s =
     Some \<lparr>total_invoices = Integer 47, pending_review = Integer 8,
           approved_invoices = Integer 39, total_amount = ''23456.78''\<rparr>"

text \<open>What a render shows: the three cards (title and text), or the placeholder.\<close>

datatype dashboard_view =
  Placeholder string
  | Cards "(string \<times> string) list"

definition Dashboard_render :: "demo_stats option \<Rightarrow> dashboard_view" where
  "Dashboard_render s =
     (case s of
        None \<Rightarrow> Placeholder ''Loading dashboard data...''
      | Some st \<Rightarrow>
          Cards [(''Total Invoices'', number_toString (total_invoices st)),
                 (''Pending Review'', number_toString (pending_review st)),
                 (''Total Amount'', CHR ''$'' # total_amount st)])"

text \<open>The states the component is rendered with: the initial one, then the one the
  mount effect stores; a later render has the same state, which nothing else sets.\<close>

definition Dashboard_states :: "demo_stats option list" where
  "Dashboard_states = [Dashboard_initial, Dashboard_effect Dashboard_initial]"

section \<open>Observing a call\<close>

text \<open>The requests issued between a world and a later one, and a world to start from.\<close>

definition issued :: "world \<Rightarrow> world \<Rightarrow> request list" where
  "issued w w' = drop (length (requests w)) (requests w')"

definition world0 :: world where
  "world0 = \<lparr>localStorage = Map.empty, requests = [], notifications = [], location = ''/''\<rparr>"

text \<open>A server that answers every request with the given status and body as an error
  response, and one that answers every request with success.\<close>

definition rejecting :: "nat \<Rightarrow> json \<Rightarrow> server" where
  "rejecting s d = (\<lambda>earlier r. Inl (AxiosError (Some \<lparr>status = s, data = d\<rparr>)))"

definition accepting :: "json \<Rightarrow> server" where
  "accepting d = (\<lambda>earlier r. Inr \<lparr>status = 200, data = d\<rparr>)"

text \<open>A file to upload in the examples.\<close>

definition invoice_pdf :: js_file where
  "invoice_pdf = \<lparr>file_name = ''invoice.pdf'', file_type = ''application/pdf'', file_size = 1024\<rparr>"


text \<open>States of the upload page and of the provider, and a signed-in browser, for the
  examples.\<close>

definition no_file_selected :: upload_state where
  "no_file_selected = \<lparr>files = [], uploading = False, uploadProgress = 0\<rparr>"

definition two_files_selected :: upload_state where
  "two_files_selected =
     \<lparr>files = [\<lparr>ufile = invoice_pdf, preview = None\<rparr>,
               \<lparr>ufile = \<lparr>file_name = ''scan.png'', file_type = ''image/png'', file_size = 2048\<rparr>,
                preview = Some ''blob:scan''\<rparr>],
      uploading = False, uploadProgress = 0\<rparr>"

definition signed_in :: world where
  "signed_in = \<lparr>localStorage = [''docbot_token'' \<mapsto> ''abc'', ''theme'' \<mapsto> ''dark''],
                requests = [], notifications = [], location = ''/upload''\<rparr>"

definition signed_in_user :: auth_state where
  "signed_in_user =
     \<lparr>user = Some (JObj [(''id'', JNum (Integer 1)), (''email'', JStr ''demo@docbot.com'')]),
      token = Some ''abc'', loading = False\<rparr>"



text \<open>Error bodies: a detail that is a text, an empty text, a number, and an object
  with a \<open>toString\<close> property of its own.\<close>

definition email_taken :: json where
  "email_taken = JObj [(''detail'', JStr ''Email already registered'')]"

definition empty_detail :: json where
  "empty_detail = JObj [(''detail'', JStr [])]"

definition numeric_detail :: json where
  "numeric_detail = JObj [(''detail'', JNum (Integer 422))]"

definition unprintable_detail :: json where
  "unprintable_detail = JObj [(''detail'', JObj [(''toString'', JNum (Integer 1))])]"


text \<open>The \<open>Authorization\<close> header of a request, if it has one.\<close>

definition authorization :: "request \<Rightarrow> string option" where
  "authorization r = map_of (headers r) ''Authorization''"

section \<open>Facts shared by the proofs\<close>

lemma dec_10: "dec 10 = ''10''"
  by (simp add: dec.simps digit_char_def)

lemma js_to_string_raises:
  "js_to_string v = Inl e \<Longrightarrow> e = TypeError"
  "js_elements vs = Inl e \<Longrightarrow> e = TypeError"
  by (induction v and vs rule: js_to_string_js_elements.induct)
    (auto split: sum.splits option.splits if_splits)

lemma error_or_falsy: "\<not> truthy v \<Longrightarrow> error_or v fallback = Error fallback"
  by (cases v) (simp_all add: error_or_def)

lemma error_or_printed:
  "truthy (Some v) \<Longrightarrow> js_to_string v = Inr m \<Longrightarrow> error_or (Some v) fallback = Error m"
  by (simp add: error_or_def)

lemma error_or_raises:
  "truthy (Some v) \<Longrightarrow> js_to_string v = Inl e \<Longrightarrow> error_or (Some v) fallback = TypeError"
  using js_to_string_raises(1) [of v e] by (simp add: error_or_def)

lemma error_or_text: "d \<noteq> [] \<Longrightarrow> error_or (Some (JStr d)) fallback = Error d"
  by (simp add: error_or_def)

lemma error_or_no_response: "response_detail (error_or v fallback) = None"
proof (cases "truthy v")
  case False
  then show ?thesis by (simp add: error_or_falsy)
next
  case True
  then obtain x where v: "v = Some x" by (cases v) auto
  show ?thesis
  proof (cases "js_to_string x")
    case (Inl e)
    then show ?thesis using True v by (simp add: error_or_raises)
  next
    case (Inr m)
    then show ?thesis using True v by (simp add: error_or_printed)
  qed
qed

lemma issued_append: "issued w (w\<lparr>requests := requests w @ rs\<rparr>) = rs"
  by (simp add: issued_def)

text \<open>Every service method leaves the world as it was, but for the one request it logs.\<close>

lemma login_world:
  "snd (login env srv email password w) =
     w\<lparr>requests := requests w @ [login_request env email password]\<rparr>"
  by (simp add: login_def axios_def split: sum.split)

lemma getCurrentUser_world:
  "snd (getCurrentUser env srv tok w) =
     w\<lparr>requests := requests w @ [getCurrentUser_request env tok]\<rparr>"
  by (simp add: getCurrentUser_def axios_def split: sum.split)

lemma refreshToken_world:
  "snd (refreshToken env srv tok w) =
     w\<lparr>requests := requests w @ [refreshToken_request env tok]\<rparr>"
  by (simp add: refreshToken_def axios_def split: sum.split)

lemma register_world:
  "snd (register env srv userData w) =
     w\<lparr>requests := requests w @ [register_request env userData]\<rparr>"
  by (simp add: register_def axios_def split: sum.split)

lemma forgotPassword_world:
  "snd (forgotPassword env srv email w) =
     w\<lparr>requests := requests w @ [forgotPassword_request env email]\<rparr>"
  by (simp add: forgotPassword_def axios_def split: sum.split)

lemma resetPassword_world:
  "snd (resetPassword env srv tok password w) =
     w\<lparr>requests := requests w @ [resetPassword_request env tok password]\<rparr>"
  by (simp add: resetPassword_def axios_def split: sum.split)

lemma updateProfile_world:
  "snd (updateProfile env srv tok userData w) =
     w\<lparr>requests := requests w @ [updateProfile_request env tok userData]\<rparr>"
  by (simp add: updateProfile_def axios_def split: sum.split)

lemma changePassword_world:
  "snd (changePassword env srv tok currentPassword newPassword w) =
     w\<lparr>requests := requests w @ [changePassword_request env tok currentPassword newPassword]\<rparr>"
  by (simp add: changePassword_def axios_def split: sum.split)

lemma uploadInvoice_world:
  "snd (uploadInvoice env srv f w) =
     w\<lparr>requests := requests w @ [uploadInvoice_request env f w]\<rparr>"
  by (simp add: uploadInvoice_def axios_def split: sum.split)

lemma getInvoices_world:
  "snd (getInvoices env srv params w) =
     w\<lparr>requests := requests w @ [getInvoices_request env params w]\<rparr>"
  by (simp add: getInvoices_def axios_def split: sum.split)

lemma getInvoice_world:
  "snd (getInvoice env srv invoiceId w) =
     w\<lparr>requests := requests w @ [getInvoice_request env invoiceId w]\<rparr>"
  by (simp add: getInvoice_def axios_def split: sum.split)

lemma approveInvoice_world:
  "snd (approveInvoice env srv invoiceId w) =
     w\<lparr>requests := requests w @ [approveInvoice_request env invoiceId w]\<rparr>"
  by (simp add: approveInvoice_def axios_def split: sum.split)

lemma getStats_world:
  "snd (getStats env srv w) =
     w\<lparr>requests := requests w @ [getStats_request env w]\<rparr>"
  by (simp add: getStats_def axios_def split: sum.split)

lemma getRecentInvoices_world:
  "snd (getRecentInvoices env srv limit_arg w) =
     w\<lparr>requests := requests w @ [getRecentInvoices_request env limit_arg w]\<rparr>"
  by (simp add: getRecentInvoices_def axios_def split: sum.split)

lemma uploadInvoice_request_requests:
  "uploadInvoice_request env f (w\<lparr>requests := rs\<rparr>) = uploadInvoice_request env f w"
  by (simp add: uploadInvoice_request_def InvoiceService_getAuthHeaders_def)

lemma upload_all_world:
  "snd (upload_all env srv fs w) =
     w\<lparr>requests := requests w @ map (\<lambda>f. uploadInvoice_request env f w) fs\<rparr>"
proof (induction fs arbitrary: w)
  case Nil
  show ?case by simp
next
  case (Cons f fs)
  have "snd (upload_all env srv (f # fs) w) = snd (upload_all env srv fs (snd (uploadInvoice env srv f w)))"
    by (simp split: prod.split)
  also have "\<dots> = w\<lparr>requests := requests w @ map (\<lambda>f. uploadInvoice_request env f w) (f # fs)\<rparr>"
    by (simp add: Cons.IH uploadInvoice_world uploadInvoice_request_requests)
  finally show ?case .
qed

lemma requests_showNotification: "requests (showNotification m k w) = requests w"
  by (simp add: showNotification_def)

lemma requests_navigate: "requests (navigate path w) = requests w"
  by (simp add: navigate_def)

lemma handleUpload_requests:
  "files st \<noteq> [] \<Longrightarrow>
     requests (snd (handleUpload env srv st w))
       = requests w @ map (\<lambda>u. uploadInvoice_request env (ufile u) w) (files st)"
proof -
  assume ne: "files st \<noteq> []"
  obtain results w1 where ua: "upload_all env srv (map ufile (files st)) w = (results, w1)"
    by (cases "upload_all env srv (map ufile (files st)) w")
  have w1: "w1 = w\<lparr>requests := requests w @ map (\<lambda>f. uploadInvoice_request env f w) (map ufile (files st))\<rparr>"
    using upload_all_world [of env srv "map ufile (files st)" w] ua by simp
  have "requests (snd (handleUpload env srv st w)) = requests w1"
    using ne ua
    by (simp add: handleUpload_def requests_showNotification requests_navigate split: option.split)
  then show ?thesis by (simp add: w1 comp_def)
qed




lemma upload_failure_notice_no_response:
  "response_detail e = None \<Longrightarrow> upload_failure_notice e = ''Failed to upload invoices''"
  by (simp add: upload_failure_notice_def error_or_def)

lemma uploadInvoice_failure_notice:
  "fst (uploadInvoice env srv f w) = Inl e \<Longrightarrow> upload_failure_notice e = ''Failed to upload invoices''"
  by (rule upload_failure_notice_no_response)
    (auto simp add: uploadInvoice_def axios_def error_or_no_response
      split: sum.splits if_splits)




lemma number_truthy_iff: "number_truthy n \<longleftrightarrow> n \<noteq> Integer 0 \<and> n \<noteq> NaN"
  by (cases n) simp_all

lemma number_toString_examples:
  "number_toString (Integer 40) = ''40''"
  "number_toString (Integer 25) = ''25''"
  "number_toString (Integer (- 3)) = ''-3''"
  by (simp_all add: dec.simps digit_char_def)

lemma urlencode_examples:
  "urlencode ''40'' = ''40''"
  "urlencode ''25'' = ''25''"
  "urlencode ''-3'' = ''-3''"
  "urlencode ''1e+21'' = ''1e%2B21''"
  "urlencode ''needs review/50%'' = ''needs+review%2F50%25''"
  by (simp_all add: urlencode_def urlencode_char_def urlencoded_keeps_def hex_digit_def)

lemma urlencode_skip: "urlencode ''skip'' = ''skip''"
  by (simp add: urlencode_def urlencode_char_def urlencoded_keeps_def)

lemma urlencode_limit: "urlencode ''limit'' = ''limit''"
  by (simp add: urlencode_def urlencode_char_def urlencoded_keeps_def)

lemma urlencode_status_filter: "urlencode ''status_filter'' = ''status_filter''"
  by (simp add: urlencode_def urlencode_char_def urlencoded_keeps_def)

section \<open>The service classes\<close>

text \<open>
  Claim C5. Every invocation of a method of \<open>authService\<close>, \<open>invoiceService\<close> or
  \<open>dashboardService\<close> issues exactly one HTTP request, whatever the server answers and
  whatever was requested before: no method retries, issues a second request, or answers
  from a cache without calling.
\<close>

theorem service_call_issues_exactly_one_request:
  "length (issued w (snd (login env srv email password w))) = 1
   \<and> length (issued w (snd (getCurrentUser env srv tok w))) = 1
   \<and> length (issued w (snd (refreshToken env srv tok w))) = 1
   \<and> length (issued w (snd (register env srv userData w))) = 1
   \<and> length (issued w (snd (forgotPassword env srv email w))) = 1
   \<and> length (issued w (snd (resetPassword env srv tok password w))) = 1
   \<and> length (issued w (snd (updateProfile env srv tok userData w))) = 1
   \<and> length (issued w (snd (changePassword env srv tok currentPassword newPassword w))) = 1
   \<and> length (issued w (snd (uploadInvoice env srv f w))) = 1
   \<and> length (issued w (snd (getInvoices env srv params w))) = 1
   \<and> length (issued w (snd (getInvoice env srv invoiceId w))) = 1
   \<and> length (issued w (snd (approveInvoice env srv invoiceId w))) = 1
   \<and> length (issued w (snd (getStats env srv w))) = 1
   \<and> length (issued w (snd (getRecentInvoices env srv limit_arg w))) = 1"
  by (simp only: login_world getCurrentUser_world refreshToken_world register_world
      forgotPassword_world resetPassword_world updateProfile_world changePassword_world
      uploadInvoice_world getInvoices_world getInvoice_world approveInvoice_world
      getStats_world getRecentInvoices_world issued_append list.size One_nat_def) simp

text \<open>
  Claim C4. The one request issued by each authenticated method carries an
  \<open>Authorization\<close> header that is \<open>Bearer\<close>, a space, and the token: the argument for
  \<open>authService\<close>, the \<open>docbot_token\<close> entry of \<open>localStorage\<close> for \<open>invoiceService\<close>
  and \<open>dashboardService\<close>. When \<open>localStorage\<close> has no such entry, \<open>getItem\<close> reads null
  and the header is \<open>Bearer null\<close>.
\<close>

theorem authenticated_requests_carry_bearer_token:
  "map authorization (issued w (snd (getCurrentUser env srv tok w)))
       = [Some (''Bearer '' @ tok)]
   \<and> map authorization (issued w (snd (refreshToken env srv tok w)))
       = [Some (''Bearer '' @ tok)]
   \<and> map authorization (issued w (snd (updateProfile env srv tok userData w)))
       = [Some (''Bearer '' @ tok)]
   \<and> map authorization (issued w (snd (changePassword env srv tok currentPassword newPassword w)))
       = [Some (''Bearer '' @ tok)]
   \<and> (localStorage w ''docbot_token'' = Some t \<longrightarrow>
       map authorization (issued w (snd (uploadInvoice env srv f w))) = [Some (''Bearer '' @ t)])
   \<and> (localStorage w ''docbot_token'' = Some t \<longrightarrow>
       map authorization (issued w (snd (getInvoices env srv params w))) = [Some (''Bearer '' @ t)])
   \<and> (localStorage w ''docbot_token'' = Some t \<longrightarrow>
       map authorization (issued w (snd (getInvoice env srv invoiceId w))) = [Some (''Bearer '' @ t)])
   \<and> (localStorage w ''docbot_token'' = Some t \<longrightarrow>
       map authorization (issued w (snd (approveInvoice env srv invoiceId w))) = [Some (''Bearer '' @ t)])
   \<and> (localStorage w ''docbot_token'' = Some t \<longrightarrow>
       map authorization (issued w (snd (getStats env srv w))) = [Some (''Bearer '' @ t)])
   \<and> (localStorage w ''docbot_token'' = Some t \<longrightarrow>
       map authorization (issued w (snd (getRecentInvoices env srv limit_arg w))) = [Some (''Bearer '' @ t)])
   \<and> (localStorage w ''docbot_token'' = None \<longrightarrow>
       map authorization (issued w (snd (uploadInvoice env srv f w))) = [Some ''Bearer null''])
   \<and> (localStorage w ''docbot_token'' = None \<longrightarrow>
       map authorization (issued w (snd (getInvoices env srv params w))) = [Some ''Bearer null''])
   \<and> (localStorage w ''docbot_token'' = None \<longrightarrow>
       map authorization (issued w (snd (getInvoice env srv invoiceId w))) = [Some ''Bearer null''])
   \<and> (localStorage w ''docbot_token'' = None \<longrightarrow>
       map authorization (issued w (snd (approveInvoice env srv invoiceId w))) = [Some ''Bearer null''])
   \<and> (localStorage w ''docbot_token'' = None \<longrightarrow>
       map authorization (issued w (snd (getStats env srv w))) = [Some ''Bearer null''])
   \<and> (localStorage w ''docbot_token'' = None \<longrightarrow>
       map authorization (issued w (snd (getRecentInvoices env srv limit_arg w))) = [Some ''Bearer null''])"
  by (simp add: getCurrentUser_world refreshToken_world updateProfile_world changePassword_world
      uploadInvoice_world getInvoices_world getInvoice_world approveInvoice_world
      getStats_world getRecentInvoices_world issued_append authorization_def
      getCurrentUser_request_def refreshToken_request_def updateProfile_request_def
      changePassword_request_def uploadInvoice_request_def getInvoices_request_def
      getInvoice_request_def approveInvoice_request_def getStats_request_def
      getRecentInvoices_request_def AuthService_getAuthHeaders_def
      InvoiceService_getAuthHeaders_def DashboardService_getAuthHeaders_def
      template_of_item_def)

theorem authenticated_requests_carry_bearer_token_witness:
  "map authorization (issued signed_in (snd (getCurrentUser None (accepting JNull) ''abc'' signed_in)))
       = [Some ''Bearer abc'']
   \<and> map authorization (issued signed_in (snd (refreshToken None (accepting JNull) ''abc'' signed_in)))
       = [Some ''Bearer abc'']
   \<and> map authorization (issued signed_in (snd (updateProfile None (accepting JNull) ''abc'' (JObj []) signed_in)))
       = [Some ''Bearer abc'']
   \<and> map authorization (issued signed_in (snd (changePassword None (accepting JNull) ''abc'' ''old'' ''new'' signed_in)))
       = [Some ''Bearer abc'']
   \<and> map authorization (issued signed_in (snd (uploadInvoice None (accepting JNull) invoice_pdf signed_in)))
       = [Some ''Bearer abc'']
   \<and> map authorization (issued signed_in (snd (getInvoices None (accepting JNull) None signed_in)))
       = [Some ''Bearer abc'']
   \<and> map authorization (issued signed_in (snd (getInvoice None (accepting JNull) (Integer 7) signed_in)))
       = [Some ''Bearer abc'']
   \<and> map authorization (issued signed_in (snd (approveInvoice None (accepting JNull) (Integer 7) signed_in)))
       = [Some ''Bearer abc'']
   \<and> map authorization (issued signed_in (snd (getStats None (accepting JNull) signed_in)))
       = [Some ''Bearer abc'']
   \<and> map authorization (issued signed_in (snd (getRecentInvoices None (accepting JNull) None signed_in)))
       = [Some ''Bearer abc'']
   \<and> map authorization (issued world0 (snd (uploadInvoice None (accepting JNull) invoice_pdf world0)))
       = [Some ''Bearer null'']
   \<and> map authorization (issued world0 (snd (getInvoices None (accepting JNull) None world0)))
       = [Some ''Bearer null'']
   \<and> map authorization (issued world0 (snd (getInvoice None (accepting JNull) (Integer 7) world0)))
       = [Some ''Bearer null'']
   \<and> map authorization (issued world0 (snd (approveInvoice None (accepting JNull) (Integer 7) world0)))
       = [Some ''Bearer null'']
   \<and> map authorization (issued world0 (snd (getStats None (accepting JNull) world0)))
       = [Some ''Bearer null'']
   \<and> map authorization (issued world0 (snd (getRecentInvoices None (accepting JNull) None world0)))
       = [Some ''Bearer null'']"
  using authenticated_requests_carry_bearer_token
      [where w = signed_in and t = "''abc''" and env = None and srv = "accepting JNull"
       and tok = "''abc''" and userData = "JObj []" and currentPassword = "''old''"
       and newPassword = "''new''" and f = invoice_pdf and params = None
       and invoiceId = "Integer 7" and limit_arg = None]
    authenticated_requests_carry_bearer_token
      [where w = world0 and env = None and srv = "accepting JNull"
       and f = invoice_pdf and params = None and invoiceId = "Integer 7" and limit_arg = None]
  by (simp add: signed_in_def world0_def)




text \<open>
  Claim C2, as stated: on a 400 every service method throws the detail of the response
  body, whenever the body has one. It fails: \<open>changePassword\<close> throws a fixed message on
  every 400, and an empty detail makes \<open>register\<close> throw its default message.
\<close>

theorem status_400_counterexample:
  "fst (changePassword None (rejecting 400 (JObj [(''detail'', JStr ''Password too short'')]))
          ''abc'' ''old'' ''new'' world0)
     = Inl (Error ''Current password is incorrect'')
   \<and> fst (register None (rejecting 400 (JObj [(''detail'', JStr [])])) (JObj []) world0)
     = Inl (Error ''Registration failed'')"
  by (simp add: changePassword_def register_def axios_def rejecting_def error_or_def)

text \<open>
  Claim C2, amended. On a 400 response \<open>changePassword\<close> throws
  \<open>Error('Current password is incorrect')\<close>, whatever the body. Every other service
  method throws
  \<^item> an \<open>Error\<close> whose message is the detail, when the detail is a non-empty text;
  \<^item> an \<open>Error\<close> with the method's own default message, when the detail is absent or
    falsy (null, false, 0, \<open>NaN\<close>, the empty text);
  \<^item> an \<open>Error\<close> whose message is the detail as \<open>String\<close> prints it, for any other
    truthy detail that can be printed;
  \<^item> a \<open>TypeError\<close>, when the truthy detail cannot be printed (an object with a
    \<open>toString\<close> property of its own, or an array that holds one).
\<close>

theorem status_400_messages:
  assumes "status resp = 400"
  shows
    "(optional_prop (data resp) ''detail'' = Some (JStr d) \<and> d \<noteq> []
       \<and> srv (requests w) (login_request env email password) = Inl (AxiosError (Some resp))
         \<longrightarrow> fst (login env srv email password w) = Inl (Error d))
    \<and> (optional_prop (data resp) ''detail'' = Some (JStr d) \<and> d \<noteq> []
       \<and> srv (requests w) (getCurrentUser_request env tok) = Inl (AxiosError (Some resp))
         \<longrightarrow> fst (getCurrentUser env srv tok w) = Inl (Error d))
    \<and> (optional_prop (data resp) ''detail'' = Some (JStr d) \<and> d \<noteq> []
       \<and> srv (requests w) (refreshToken_request env tok) = Inl (AxiosError (Some resp))
         \<longrightarrow> fst (refreshToken env srv tok w) = Inl (Error d))
    \<and> (optional_prop (data resp) ''detail'' = Some (JStr d) \<and> d \<noteq> []
       \<and> srv (requests w) (register_request env userData) = Inl (AxiosError (Some resp))
         \<longrightarrow> fst (register env srv userData w) = Inl (Error d))
    \<and> (optional_prop (data resp) ''detail'' = Some (JStr d) \<and> d \<noteq> []
       \<and> srv (requests w) (forgotPassword_request env email) = Inl (AxiosError (Some resp))
         \<longrightarrow> fst (forgotPassword env srv email w) = Inl (Error d))
    \<and> (optional_prop (data resp) ''detail'' = Some (JStr d) \<and> d \<noteq> []
       \<and> srv (requests w) (resetPassword_request env tok password) = Inl (AxiosError (Some resp))
         \<longrightarrow> fst (resetPassword env srv tok password w) = Inl (Error d))
    \<and> (optional_prop (data resp) ''detail'' = Some (JStr d) \<and> d \<noteq> []
       \<and> srv (requests w) (updateProfile_request env tok userData) = Inl (AxiosError (Some resp))
         \<longrightarrow> fst (updateProfile env srv tok userData w) = Inl (Error d))
    \<and> (optional_prop (data resp) ''detail'' = Some (JStr d) \<and> d \<noteq> []
       \<and> srv (requests w) (uploadInvoice_request env f w) = Inl (AxiosError (Some resp))
         \<longrightarrow> fst (uploadInvoice env srv f w) = Inl (Error d))
    \<and> (optional_prop (data resp) ''detail'' = Some (JStr d) \<and> d \<noteq> []
       \<and> srv (requests w) (getInvoices_request env params w) = Inl (AxiosError (Some resp))
         \<longrightarrow> fst (getInvoices env srv params w) = Inl (Error d))
    \<and> (optional_prop (data resp) ''detail'' = Some (JStr d) \<and> d \<noteq> []
       \<and> srv (requests w) (getInvoice_request env invoiceId w) = Inl (AxiosError (Some resp))
         \<longrightarrow> fst (getInvoice env srv invoiceId w) = Inl (Error d))
    \<and> (optional_prop (data resp) ''detail'' = Some (JStr d) \<and> d \<noteq> []
       \<and> srv (requests w) (approveInvoice_request env invoiceId w) = Inl (AxiosError (Some resp))
         \<longrightarrow> fst (approveInvoice env srv invoiceId w) = Inl (Error d))
    \<and> (optional_prop (data resp) ''detail'' = Some (JStr d) \<and> d \<noteq> []
       \<and> srv (requests w) (getStats_request env w) = Inl (AxiosError (Some resp))
         \<longrightarrow> fst (getStats env srv w) = Inl (Error d))
    \<and> (optional_prop (data resp) ''detail'' = Some (JStr d) \<and> d \<noteq> []
       \<and> srv (requests w) (getRecentInvoices_request env limit_arg w) = Inl (AxiosError (Some resp))
         \<longrightarrow> fst (getRecentInvoices env srv limit_arg w) = Inl (Error d))
    \<and> (\<not> truthy (optional_prop (data resp) ''detail'')
       \<and> srv (requests w) (login_request env email password) = Inl (AxiosError (Some resp))
         \<longrightarrow> fst (login env srv email password w) = Inl (Error ''Login failed''))
    \<and> (\<not> truthy (optional_prop (data resp) ''detail'')
       \<and> srv (requests w) (getCurrentUser_request env tok) = Inl (AxiosError (Some resp))
         \<longrightarrow> fst (getCurrentUser env srv tok w) = Inl (Error ''Failed to get user data''))
    \<and> (\<not> truthy (optional_prop (data resp) ''detail'')
       \<and> srv (requests w) (refreshToken_request env tok) = Inl (AxiosError (Some resp))
         \<longrightarrow> fst (refreshToken env srv tok w) = Inl (Error ''Token refresh failed''))
    \<and> (\<not> truthy (optional_prop (data resp) ''detail'')
       \<and> srv (requests w) (register_request env userData) = Inl (AxiosError (Some resp))
         \<longrightarrow> fst (register env srv userData w) = Inl (Error ''Registration failed''))
    \<and> (\<not> truthy (optional_prop (data resp) ''detail'')
       \<and> srv (requests w) (forgotPassword_request env email) = Inl (AxiosError (Some resp))
         \<longrightarrow> fst (forgotPassword env srv email w) = Inl (Error ''Failed to send reset email''))
    \<and> (\<not> truthy (optional_prop (data resp) ''detail'')
       \<and> srv (requests w) (resetPassword_request env tok password) = Inl (AxiosError (Some resp))
         \<longrightarrow> fst (resetPassword env srv tok password w) = Inl (Error ''Failed to reset password''))
    \<and> (\<not> truthy (optional_prop (data resp) ''detail'')
       \<and> srv (requests w) (updateProfile_request env tok userData) = Inl (AxiosError (Some resp))
         \<longrightarrow> fst (updateProfile env srv tok userData w) = Inl (Error ''Failed to update profile''))
    \<and> (\<not> truthy (optional_prop (data resp) ''detail'')
       \<and> srv (requests w) (uploadInvoice_request env f w) = Inl (AxiosError (Some resp))
         \<longrightarrow> fst (uploadInvoice env srv f w) = Inl (Error ''Failed to upload invoice''))
    \<and> (\<not> truthy (optional_prop (data resp) ''detail'')
       \<and> srv (requests w) (getInvoices_request env params w) = Inl (AxiosError (Some resp))
         \<longrightarrow> fst (getInvoices env srv params w) = Inl (Error ''Failed to get invoices''))
    \<and> (\<not> truthy (optional_prop (data resp) ''detail'')
       \<and> srv (requests w) (getInvoice_request env invoiceId w) = Inl (AxiosError (Some resp))
         \<longrightarrow> fst (getInvoice env srv invoiceId w) = Inl (Error ''Failed to get invoice''))
    \<and> (\<not> truthy (optional_prop (data resp) ''detail'')
       \<and> srv (requests w) (approveInvoice_request env invoiceId w) = Inl (AxiosError (Some resp))
         \<longrightarrow> fst (approveInvoice env srv invoiceId w) = Inl (Error ''Failed to approve invoice''))
    \<and> (\<not> truthy (optional_prop (data resp) ''detail'')
       \<and> srv (requests w) (getStats_request env w) = Inl (AxiosError (Some resp))
         \<longrightarrow> fst (getStats env srv w) = Inl (Error ''Failed to get dashboard stats''))
    \<and> (\<not> truthy (optional_prop (data resp) ''detail'')
       \<and> srv (requests w) (getRecentInvoices_request env limit_arg w) = Inl (AxiosError (Some resp))
         \<longrightarrow> fst (getRecentInvoices env srv limit_arg w) = Inl (Error ''Failed to get recent invoices''))
    \<and> (optional_prop (data resp) ''detail'' = Some v \<and> truthy (Some v) \<and> js_to_string v = Inr m
       \<and> srv (requests w) (login_request env email password) = Inl (AxiosError (Some resp))
         \<longrightarrow> fst (login env srv email password w) = Inl (Error m))
    \<and> (optional_prop (data resp) ''detail'' = Some v \<and> truthy (Some v) \<and> js_to_string v = Inr m
       \<and> srv (requests w) (getCurrentUser_request env tok) = Inl (AxiosError (Some resp))
         \<longrightarrow> fst (getCurrentUser env srv tok w) = Inl (Error m))
    \<and> (optional_prop (data resp) ''detail'' = Some v \<and> truthy (Some v) \<and> js_to_string v = Inr m
       \<and> srv (requests w) (refreshToken_request env tok) = Inl (AxiosError (Some resp))
         \<longrightarrow> fst (refreshToken env srv tok w) = Inl (Error m))
    \<and> (optional_prop (data resp) ''detail'' = Some v \<and> truthy (Some v) \<and> js_to_string v = Inr m
       \<and> srv (requests w) (register_request env userData) = Inl (AxiosError (Some resp))
         \<longrightarrow> fst (register env srv userData w) = Inl (Error m))
    \<and> (optional_prop (data resp) ''detail'' = Some v \<and> truthy (Some v) \<and> js_to_string v = Inr m
       \<and> srv (requests w) (forgotPassword_request env email) = Inl (AxiosError (Some resp))
         \<longrightarrow> fst (forgotPassword env srv email w) = Inl (Error m))
    \<and> (optional_prop (data resp) ''detail'' = Some v \<and> truthy (Some v) \<and> js_to_string v = Inr m
       \<and> srv (requests w) (resetPassword_request env tok password) = Inl (AxiosError (Some resp))
         \<longrightarrow> fst (resetPassword env srv tok password w) = Inl (Error m))
    \<and> (optional_prop (data resp) ''detail'' = Some v \<and> truthy (Some v) \<and> js_to_string v = Inr m
       \<and> srv (requests w) (updateProfile_request env tok userData) = Inl (AxiosError (Some resp))
         \<longrightarrow> fst (updateProfile env srv tok userData w) = Inl (Error m))
    \<and> (optional_prop (data resp) ''detail'' = Some v \<and> truthy (Some v) \<and> js_to_string v = Inr m
       \<and> srv (requests w) (uploadInvoice_request env f w) = Inl (AxiosError (Some resp))
         \<longrightarrow> fst (uploadInvoice env srv f w) = Inl (Error m))
    \<and> (optional_prop (data resp) ''detail'' = Some v \<and> truthy (Some v) \<and> js_to_string v = Inr m
       \<and> srv (requests w) (getInvoices_request env params w) = Inl (AxiosError (Some resp))
         \<longrightarrow> fst (getInvoices env srv params w) = Inl (Error m))
    \<and> (optional_prop (data resp) ''detail'' = Some v \<and> truthy (Some v) \<and> js_to_string v = Inr m
       \<and> srv (requests w) (getInvoice_request env invoiceId w) = Inl (AxiosError (Some resp))
         \<longrightarrow> fst (getInvoice env srv invoiceId w) = Inl (Error m))
    \<and> (optional_prop (data resp) ''detail'' = Some v \<and> truthy (Some v) \<and> js_to_string v = Inr m
       \<and> srv (requests w) (approveInvoice_request env invoiceId w) = Inl (AxiosError (Some resp))
         \<longrightarrow> fst (approveInvoice env srv invoiceId w) = Inl (Error m))
    \<and> (optional_prop (data resp) ''detail'' = Some v \<and> truthy (Some v) \<and> js_to_string v = Inr m
       \<and> srv (requests w) (getStats_request env w) = Inl (AxiosError (Some resp))
         \<longrightarrow> fst (getStats env srv w) = Inl (Error m))
    \<and> (optional_prop (data resp) ''detail'' = Some v \<and> truthy (Some v) \<and> js_to_string v = Inr m
       \<and> srv (requests w) (getRecentInvoices_request env limit_arg w) = Inl (AxiosError (Some resp))
         \<longrightarrow> fst (getRecentInvoices env srv limit_arg w) = Inl (Error m))
    \<and> (optional_prop (data resp) ''detail'' = Some v \<and> truthy (Some v) \<and> js_to_string v = Inl e
       \<and> srv (requests w) (login_request env email password) = Inl (AxiosError (Some resp))
         \<longrightarrow> fst (login env srv email password w) = Inl TypeError)
    \<and> (optional_prop (data resp) ''detail'' = Some v \<and> truthy (Some v) \<and> js_to_string v = Inl e
       \<and> srv (requests w) (getCurrentUser_request env tok) = Inl (AxiosError (Some resp))
         \<longrightarrow> fst (getCurrentUser env srv tok w) = Inl TypeError)
    \<and> (optional_prop (data resp) ''detail'' = Some v \<and> truthy (Some v) \<and> js_to_string v = Inl e
       \<and> srv (requests w) (refreshToken_request env tok) = Inl (AxiosError (Some resp))
         \<longrightarrow> fst (refreshToken env srv tok w) = Inl TypeError)
    \<and> (optional_prop (data resp) ''detail'' = Some v \<and> truthy (Some v) \<and> js_to_string v = Inl e
       \<and> srv (requests w) (register_request env userData) = Inl (AxiosError (Some resp))
         \<longrightarrow> fst (register env srv userData w) = Inl TypeError)
    \<and> (optional_prop (data resp) ''detail'' = Some v \<and> truthy (Some v) \<and> js_to_string v = Inl e
       \<and> srv (requests w) (forgotPassword_request env email) = Inl (AxiosError (Some resp))
         \<longrightarrow> fst (forgotPassword env srv email w) = Inl TypeError)
    \<and> (optional_prop (data resp) ''detail'' = Some v \<and> truthy (Some v) \<and> js_to_string v = Inl e
       \<and> srv (requests w) (resetPassword_request env tok password) = Inl (AxiosError (Some resp))
         \<longrightarrow> fst (resetPassword env srv tok password w) = Inl TypeError)
    \<and> (optional_prop (data resp) ''detail'' = Some v \<and> truthy (Some v) \<and> js_to_string v = Inl e
       \<and> srv (requests w) (updateProfile_request env tok userData) = Inl (AxiosError (Some resp))
         \<longrightarrow> fst (updateProfile env srv tok userData w) = Inl TypeError)
    \<and> (optional_prop (data resp) ''detail'' = Some v \<and> truthy (Some v) \<and> js_to_string v = Inl e
       \<and> srv (requests w) (uploadInvoice_request env f w) = Inl (AxiosError (Some resp))
         \<longrightarrow> fst (uploadInvoice env srv f w) = Inl TypeError)
    \<and> (optional_prop (data resp) ''detail'' = Some v \<and> truthy (Some v) \<and> js_to_string v = Inl e
       \<and> srv (requests w) (getInvoices_request env params w) = Inl (AxiosError (Some resp))
         \<longrightarrow> fst (getInvoices env srv params w) = Inl TypeError)
    \<and> (optional_prop (data resp) ''detail'' = Some v \<and> truthy (Some v) \<and> js_to_string v = Inl e
       \<and> srv (requests w) (getInvoice_request env invoiceId w) = Inl (AxiosError (Some resp))
         \<longrightarrow> fst (getInvoice env srv invoiceId w) = Inl TypeError)
    \<and> (optional_prop (data resp) ''detail'' = Some v \<and> truthy (Some v) \<and> js_to_string v = Inl e
       \<and> srv (requests w) (approveInvoice_request env invoiceId w) = Inl (AxiosError (Some resp))
         \<longrightarrow> fst (approveInvoice env srv invoiceId w) = Inl TypeError)
    \<and> (optional_prop (data resp) ''detail'' = Some v \<and> truthy (Some v) \<and> js_to_string v = Inl e
       \<and> srv (requests w) (getStats_request env w) = Inl (AxiosError (Some resp))
         \<longrightarrow> fst (getStats env srv w) = Inl TypeError)
    \<and> (optional_prop (data resp) ''detail'' = Some v \<and> truthy (Some v) \<and> js_to_string v = Inl e
       \<and> srv (requests w) (getRecentInvoices_request env limit_arg w) = Inl (AxiosError (Some resp))
         \<longrightarrow> fst (getRecentInvoices env srv limit_arg w) = Inl TypeError)
    \<and> (srv (requests w) (changePassword_request env tok currentPassword newPassword) = Inl (AxiosError (Some resp))
         \<longrightarrow> fst (changePassword env srv tok currentPassword newPassword w) = Inl (Error ''Current password is incorrect''))"
  using assms
  by (simp add: login_def getCurrentUser_def refreshToken_def register_def forgotPassword_def
      resetPassword_def updateProfile_def changePassword_def uploadInvoice_def
      getInvoices_def getInvoice_def approveInvoice_def getStats_def getRecentInvoices_def
      axios_def getRecentInvoices_catch_def error_or_text error_or_falsy error_or_printed
      error_or_raises
      split: sum.split)

theorem status_400_messages_witness:
  "fst (login None (rejecting 400 email_taken) ''demo@docbot.com'' ''password'' world0)
       = Inl (Error ''Email already registered'')
   \<and> fst (getCurrentUser None (rejecting 400 email_taken) ''abc'' world0)
       = Inl (Error ''Email already registered'')
   \<and> fst (refreshToken None (rejecting 400 email_taken) ''abc'' world0)
       = Inl (Error ''Email already registered'')
   \<and> fst (register None (rejecting 400 email_taken) (JObj []) world0)
       = Inl (Error ''Email already registered'')
   \<and> fst (forgotPassword None (rejecting 400 email_taken) ''demo@docbot.com'' world0)
       = Inl (Error ''Email already registered'')
   \<and> fst (resetPassword None (rejecting 400 email_taken) ''abc'' ''password'' world0)
       = Inl (Error ''Email already registered'')
   \<and> fst (updateProfile None (rejecting 400 email_taken) ''abc'' (JObj []) world0)
       = Inl (Error ''Email already registered'')
   \<and> fst (uploadInvoice None (rejecting 400 email_taken) invoice_pdf world0)
       = Inl (Error ''Email already registered'')
   \<and> fst (getInvoices None (rejecting 400 email_taken) None world0)
       = Inl (Error ''Email already registered'')
   \<and> fst (getInvoice None (rejecting 400 email_taken) (Integer 7) world0)
       = Inl (Error ''Email already registered'')
   \<and> fst (approveInvoice None (rejecting 400 email_taken) (Integer 7) world0)
       = Inl (Error ''Email already registered'')
   \<and> fst (getStats None (rejecting 400 email_taken) world0)
       = Inl (Error ''Email already registered'')
   \<and> fst (getRecentInvoices None (rejecting 400 email_taken) None world0)
       = Inl (Error ''Email already registered'')
   \<and> fst (changePassword None (rejecting 400 email_taken) ''abc'' ''old'' ''new'' world0)
       = Inl (Error ''Current password is incorrect'')
   \<and> fst (login None (rejecting 400 empty_detail) ''demo@docbot.com'' ''password'' world0)
       = Inl (Error ''Login failed'')
   \<and> fst (getCurrentUser None (rejecting 400 empty_detail) ''abc'' world0)
       = Inl (Error ''Failed to get user data'')
   \<and> fst (refreshToken None (rejecting 400 empty_detail) ''abc'' world0)
       = Inl (Error ''Token refresh failed'')
   \<and> fst (register None (rejecting 400 empty_detail) (JObj []) world0)
       = Inl (Error ''Registration failed'')
   \<and> fst (forgotPassword None (rejecting 400 empty_detail) ''demo@docbot.com'' world0)
       = Inl (Error ''Failed to send reset email'')
   \<and> fst (resetPassword None (rejecting 400 empty_detail) ''abc'' ''password'' world0)
       = Inl (Error ''Failed to reset password'')
   \<and> fst (updateProfile None (rejecting 400 empty_detail) ''abc'' (JObj []) world0)
       = Inl (Error ''Failed to update profile'')
   \<and> fst (uploadInvoice None (rejecting 400 empty_detail) invoice_pdf world0)
       = Inl (Error ''Failed to upload invoice'')
   \<and> fst (getInvoices None (rejecting 400 empty_detail) None world0)
       = Inl (Error ''Failed to get invoices'')
   \<and> fst (getInvoice None (rejecting 400 empty_detail) (Integer 7) world0)
       = Inl (Error ''Failed to get invoice'')
   \<and> fst (approveInvoice None (rejecting 400 empty_detail) (Integer 7) world0)
       = Inl (Error ''Failed to approve invoice'')
   \<and> fst (getStats None (rejecting 400 empty_detail) world0)
       = Inl (Error ''Failed to get dashboard stats'')
   \<and> fst (getRecentInvoices None (rejecting 400 empty_detail) None world0)
       = Inl (Error ''Failed to get recent invoices'')
   \<and> fst (changePassword None (rejecting 400 empty_detail) ''abc'' ''old'' ''new'' world0)
       = Inl (Error ''Current password is incorrect'')
   \<and> fst (login None (rejecting 400 JNull) ''demo@docbot.com'' ''password'' world0)
       = Inl (Error ''Login failed'')
   \<and> fst (getCurrentUser None (rejecting 400 JNull) ''abc'' world0)
       = Inl (Error ''Failed to get user data'')
   \<and> fst (refreshToken None (rejecting 400 JNull) ''abc'' world0)
       = Inl (Error ''Token refresh failed'')
   \<and> fst (register None (rejecting 400 JNull) (JObj []) world0)
       = Inl (Error ''Registration failed'')
   \<and> fst (forgotPassword None (rejecting 400 JNull) ''demo@docbot.com'' world0)
       = Inl (Error ''Failed to send reset email'')
   \<and> fst (resetPassword None (rejecting 400 JNull) ''abc'' ''password'' world0)
       = Inl (Error ''Failed to reset password'')
   \<and> fst (updateProfile None (rejecting 400 JNull) ''abc'' (JObj []) world0)
       = Inl (Error ''Failed to update profile'')
   \<and> fst (uploadInvoice None (rejecting 400 JNull) invoice_pdf world0)
       = Inl (Error ''Failed to upload invoice'')
   \<and> fst (getInvoices None (rejecting 400 JNull) None world0)
       = Inl (Error ''Failed to get invoices'')
   \<and> fst (getInvoice None (rejecting 400 JNull) (Integer 7) world0)
       = Inl (Error ''Failed to get invoice'')
   \<and> fst (approveInvoice None (rejecting 400 JNull) (Integer 7) world0)
       = Inl (Error ''Failed to approve invoice'')
   \<and> fst (getStats None (rejecting 400 JNull) world0)
       = Inl (Error ''Failed to get dashboard stats'')
   \<and> fst (getRecentInvoices None (rejecting 400 JNull) None world0)
       = Inl (Error ''Failed to get recent invoices'')
   \<and> fst (changePassword None (rejecting 400 JNull) ''abc'' ''old'' ''new'' world0)
       = Inl (Error ''Current password is incorrect'')
   \<and> fst (login None (rejecting 400 numeric_detail) ''demo@docbot.com'' ''password'' world0)
       = Inl (Error ''422'')
   \<and> fst (getCurrentUser None (rejecting 400 numeric_detail) ''abc'' world0)
       = Inl (Error ''422'')
   \<and> fst (refreshToken None (rejecting 400 numeric_detail) ''abc'' world0)
       = Inl (Error ''422'')
   \<and> fst (register None (rejecting 400 numeric_detail) (JObj []) world0)
       = Inl (Error ''422'')
   \<and> fst (forgotPassword None (rejecting 400 numeric_detail) ''demo@docbot.com'' world0)
       = Inl (Error ''422'')
   \<and> fst (resetPassword None (rejecting 400 numeric_detail) ''abc'' ''password'' world0)
       = Inl (Error ''422'')
   \<and> fst (updateProfile None (rejecting 400 numeric_detail) ''abc'' (JObj []) world0)
       = Inl (Error ''422'')
   \<and> fst (uploadInvoice None (rejecting 400 numeric_detail) invoice_pdf world0)
       = Inl (Error ''422'')
   \<and> fst (getInvoices None (rejecting 400 numeric_detail) None world0)
       = Inl (Error ''422'')
   \<and> fst (getInvoice None (rejecting 400 numeric_detail) (Integer 7) world0)
       = Inl (Error ''422'')
   \<and> fst (approveInvoice None (rejecting 400 numeric_detail) (Integer 7) world0)
       = Inl (Error ''422'')
   \<and> fst (getStats None (rejecting 400 numeric_detail) world0)
       = Inl (Error ''422'')
   \<and> fst (getRecentInvoices None (rejecting 400 numeric_detail) None world0)
       = Inl (Error ''422'')
   \<and> fst (changePassword None (rejecting 400 numeric_detail) ''abc'' ''old'' ''new'' world0)
       = Inl (Error ''Current password is incorrect'')
   \<and> fst (login None (rejecting 400 unprintable_detail) ''demo@docbot.com'' ''password'' world0)
       = Inl TypeError
   \<and> fst (getCurrentUser None (rejecting 400 unprintable_detail) ''abc'' world0)
       = Inl TypeError
   \<and> fst (refreshToken None (rejecting 400 unprintable_detail) ''abc'' world0)
       = Inl TypeError
   \<and> fst (register None (rejecting 400 unprintable_detail) (JObj []) world0)
       = Inl TypeError
   \<and> fst (forgotPassword None (rejecting 400 unprintable_detail) ''demo@docbot.com'' world0)
       = Inl TypeError
   \<and> fst (resetPassword None (rejecting 400 unprintable_detail) ''abc'' ''password'' world0)
       = Inl TypeError
   \<and> fst (updateProfile None (rejecting 400 unprintable_detail) ''abc'' (JObj []) world0)
       = Inl TypeError
   \<and> fst (uploadInvoice None (rejecting 400 unprintable_detail) invoice_pdf world0)
       = Inl TypeError
   \<and> fst (getInvoices None (rejecting 400 unprintable_detail) None world0)
       = Inl TypeError
   \<and> fst (getInvoice None (rejecting 400 unprintable_detail) (Integer 7) world0)
       = Inl TypeError
   \<and> fst (approveInvoice None (rejecting 400 unprintable_detail) (Integer 7) world0)
       = Inl TypeError
   \<and> fst (getStats None (rejecting 400 unprintable_detail) world0)
       = Inl TypeError
   \<and> fst (getRecentInvoices None (rejecting 400 unprintable_detail) None world0)
       = Inl TypeError
   \<and> fst (changePassword None (rejecting 400 unprintable_detail) ''abc'' ''old'' ''new'' world0)
       = Inl (Error ''Current password is incorrect'')"
proof -
  have at_text:
    "fst (login None (rejecting 400 email_taken) ''demo@docbot.com'' ''password'' world0)
         = Inl (Error ''Email already registered'')
     \<and> fst (getCurrentUser None (rejecting 400 email_taken) ''abc'' world0)
         = Inl (Error ''Email already registered'')
     \<and> fst (refreshToken None (rejecting 400 email_taken) ''abc'' world0)
         = Inl (Error ''Email already registered'')
     \<and> fst (register None (rejecting 400 email_taken) (JObj []) world0)
         = Inl (Error ''Email already registered'')
     \<and> fst (forgotPassword None (rejecting 400 email_taken) ''demo@docbot.com'' world0)
         = Inl (Error ''Email already registered'')
     \<and> fst (resetPassword None (rejecting 400 email_taken) ''abc'' ''password'' world0)
         = Inl (Error ''Email already registered'')
     \<and> fst (updateProfile None (rejecting 400 email_taken) ''abc'' (JObj []) world0)
         = Inl (Error ''Email already registered'')
     \<and> fst (uploadInvoice None (rejecting 400 email_taken) invoice_pdf world0)
         = Inl (Error ''Email already registered'')
     \<and> fst (getInvoices None (rejecting 400 email_taken) None world0)
         = Inl (Error ''Email already registered'')
     \<and> fst (getInvoice None (rejecting 400 email_taken) (Integer 7) world0)
         = Inl (Error ''Email already registered'')
     \<and> fst (approveInvoice None (rejecting 400 email_taken) (Integer 7) world0)
         = Inl (Error ''Email already registered'')
     \<and> fst (getStats None (rejecting 400 email_taken) world0)
         = Inl (Error ''Email already registered'')
     \<and> fst (getRecentInvoices None (rejecting 400 email_taken) None world0)
         = Inl (Error ''Email already registered'')
     \<and> fst (changePassword None (rejecting 400 email_taken) ''abc'' ''old'' ''new'' world0)
         = Inl (Error ''Current password is incorrect'')"
    using status_400_messages
        [where resp = "\<lparr>status = 400, data = email_taken\<rparr>" and srv = "rejecting 400 email_taken"
         and d = "''Email already registered''" and env = None and w = world0
         and email = "''demo@docbot.com''" and password = "''password''" and tok = "''abc''"
         and userData = "JObj []" and currentPassword = "''old''" and newPassword = "''new''"
         and f = invoice_pdf and params = None and invoiceId = "Integer 7" and limit_arg = None]
    by (simp add: rejecting_def email_taken_def dec.simps digit_char_def)
  have at_empty:
    "fst (login None (rejecting 400 empty_detail) ''demo@docbot.com'' ''password'' world0)
         = Inl (Error ''Login failed'')
     \<and> fst (getCurrentUser None (rejecting 400 empty_detail) ''abc'' world0)
         = Inl (Error ''Failed to get user data'')
     \<and> fst (refreshToken None (rejecting 400 empty_detail) ''abc'' world0)
         = Inl (Error ''Token refresh failed'')
     \<and> fst (register None (rejecting 400 empty_detail) (JObj []) world0)
         = Inl (Error ''Registration failed'')
     \<and> fst (forgotPassword None (rejecting 400 empty_detail) ''demo@docbot.com'' world0)
         = Inl (Error ''Failed to send reset email'')
     \<and> fst (resetPassword None (rejecting 400 empty_detail) ''abc'' ''password'' world0)
         = Inl (Error ''Failed to reset password'')
     \<and> fst (updateProfile None (rejecting 400 empty_detail) ''abc'' (JObj []) world0)
         = Inl (Error ''Failed to update profile'')
     \<and> fst (uploadInvoice None (rejecting 400 empty_detail) invoice_pdf world0)
         = Inl (Error ''Failed to upload invoice'')
     \<and> fst (getInvoices None (rejecting 400 empty_detail) None world0)
         = Inl (Error ''Failed to get invoices'')
     \<and> fst (getInvoice None (rejecting 400 empty_detail) (Integer 7) world0)
         = Inl (Error ''Failed to get invoice'')
     \<and> fst (approveInvoice None (rejecting 400 empty_detail) (Integer 7) world0)
         = Inl (Error ''Failed to approve invoice'')
     \<and> fst (getStats None (rejecting 400 empty_detail) world0)
         = Inl (Error ''Failed to get dashboard stats'')
     \<and> fst (getRecentInvoices None (rejecting 400 empty_detail) None world0)
         = Inl (Error ''Failed to get recent invoices'')
     \<and> fst (changePassword None (rejecting 400 empty_detail) ''abc'' ''old'' ''new'' world0)
         = Inl (Error ''Current password is incorrect'')"
    using status_400_messages
        [where resp = "\<lparr>status = 400, data = empty_detail\<rparr>" and srv = "rejecting 400 empty_detail"
         and env = None and w = world0 and email = "''demo@docbot.com''"
         and password = "''password''" and tok = "''abc''" and userData = "JObj []"
         and currentPassword = "''old''" and newPassword = "''new''" and f = invoice_pdf
         and params = None and invoiceId = "Integer 7" and limit_arg = None]
    by (simp add: rejecting_def empty_detail_def dec.simps digit_char_def)
  have at_absent:
    "fst (login None (rejecting 400 JNull) ''demo@docbot.com'' ''password'' world0)
         = Inl (Error ''Login failed'')
     \<and> fst (getCurrentUser None (rejecting 400 JNull) ''abc'' world0)
         = Inl (Error ''Failed to get user data'')
     \<and> fst (refreshToken None (rejecting 400 JNull) ''abc'' world0)
         = Inl (Error ''Token refresh failed'')
     \<and> fst (register None (rejecting 400 JNull) (JObj []) world0)
         = Inl (Error ''Registration failed'')
     \<and> fst (forgotPassword None (rejecting 400 JNull) ''demo@docbot.com'' world0)
         = Inl (Error ''Failed to send reset email'')
     \<and> fst (resetPassword None (rejecting 400 JNull) ''abc'' ''password'' world0)
         = Inl (Error ''Failed to reset password'')
     \<and> fst (updateProfile None (rejecting 400 JNull) ''abc'' (JObj []) world0)
         = Inl (Error ''Failed to update profile'')
     \<and> fst (uploadInvoice None (rejecting 400 JNull) invoice_pdf world0)
         = Inl (Error ''Failed to upload invoice'')
     \<and> fst (getInvoices None (rejecting 400 JNull) None world0)
         = Inl (Error ''Failed to get invoices'')
     \<and> fst (getInvoice None (rejecting 400 JNull) (Integer 7) world0)
         = Inl (Error ''Failed to get invoice'')
     \<and> fst (approveInvoice None (rejecting 400 JNull) (Integer 7) world0)
         = Inl (Error ''Failed to approve invoice'')
     \<and> fst (getStats None (rejecting 400 JNull) world0)
         = Inl (Error ''Failed to get dashboard stats'')
     \<and> fst (getRecentInvoices None (rejecting 400 JNull) None world0)
         = Inl (Error ''Failed to get recent invoices'')
     \<and> fst (changePassword None (rejecting 400 JNull) ''abc'' ''old'' ''new'' world0)
         = Inl (Error ''Current password is incorrect'')"
    using status_400_messages
        [where resp = "\<lparr>status = 400, data = JNull\<rparr>" and srv = "rejecting 400 JNull"
         and env = None and w = world0 and email = "''demo@docbot.com''"
         and password = "''password''" and tok = "''abc''" and userData = "JObj []"
         and currentPassword = "''old''" and newPassword = "''new''" and f = invoice_pdf
         and params = None and invoiceId = "Integer 7" and limit_arg = None]
    by (simp add: rejecting_def  dec.simps digit_char_def)
  have at_number:
    "fst (login None (rejecting 400 numeric_detail) ''demo@docbot.com'' ''password'' world0)
         = Inl (Error ''422'')
     \<and> fst (getCurrentUser None (rejecting 400 numeric_detail) ''abc'' world0)
         = Inl (Error ''422'')
     \<and> fst (refreshToken None (rejecting 400 numeric_detail) ''abc'' world0)
         = Inl (Error ''422'')
     \<and> fst (register None (rejecting 400 numeric_detail) (JObj []) world0)
         = Inl (Error ''422'')
     \<and> fst (forgotPassword None (rejecting 400 numeric_detail) ''demo@docbot.com'' world0)
         = Inl (Error ''422'')
     \<and> fst (resetPassword None (rejecting 400 numeric_detail) ''abc'' ''password'' world0)
         = Inl (Error ''422'')
     \<and> fst (updateProfile None (rejecting 400 numeric_detail) ''abc'' (JObj []) world0)
         = Inl (Error ''422'')
     \<and> fst (uploadInvoice None (rejecting 400 numeric_detail) invoice_pdf world0)
         = Inl (Error ''422'')
     \<and> fst (getInvoices None (rejecting 400 numeric_detail) None world0)
         = Inl (Error ''422'')
     \<and> fst (getInvoice None (rejecting 400 numeric_detail) (Integer 7) world0)
         = Inl (Error ''422'')
     \<and> fst (approveInvoice None (rejecting 400 numeric_detail) (Integer 7) world0)
         = Inl (Error ''422'')
     \<and> fst (getStats None (rejecting 400 numeric_detail) world0)
         = Inl (Error ''422'')
     \<and> fst (getRecentInvoices None (rejecting 400 numeric_detail) None world0)
         = Inl (Error ''422'')
     \<and> fst (changePassword None (rejecting 400 numeric_detail) ''abc'' ''old'' ''new'' world0)
         = Inl (Error ''Current password is incorrect'')"
    using status_400_messages
        [where resp = "\<lparr>status = 400, data = numeric_detail\<rparr>" and srv = "rejecting 400 numeric_detail"
         and v = "JNum (Integer 422)" and m = "''422''" and env = None and w = world0
         and email = "''demo@docbot.com''" and password = "''password''" and tok = "''abc''"
         and userData = "JObj []" and currentPassword = "''old''" and newPassword = "''new''"
         and f = invoice_pdf and params = None and invoiceId = "Integer 7" and limit_arg = None]
    by (simp add: rejecting_def numeric_detail_def dec.simps digit_char_def)
  have at_unprintable:
    "fst (login None (rejecting 400 unprintable_detail) ''demo@docbot.com'' ''password'' world0)
         = Inl TypeError
     \<and> fst (getCurrentUser None (rejecting 400 unprintable_detail) ''abc'' world0)
         = Inl TypeError
     \<and> fst (refreshToken None (rejecting 400 unprintable_detail) ''abc'' world0)
         = Inl TypeError
     \<and> fst (register None (rejecting 400 unprintable_detail) (JObj []) world0)
         = Inl TypeError
     \<and> fst (forgotPassword None (rejecting 400 unprintable_detail) ''demo@docbot.com'' world0)
         = Inl TypeError
     \<and> fst (resetPassword None (rejecting 400 unprintable_detail) ''abc'' ''password'' world0)
         = Inl TypeError
     \<and> fst (updateProfile None (rejecting 400 unprintable_detail) ''abc'' (JObj []) world0)
         = Inl TypeError
     \<and> fst (uploadInvoice None (rejecting 400 unprintable_detail) invoice_pdf world0)
         = Inl TypeError
     \<and> fst (getInvoices None (rejecting 400 unprintable_detail) None world0)
         = Inl TypeError
     \<and> fst (getInvoice None (rejecting 400 unprintable_detail) (Integer 7) world0)
         = Inl TypeError
     \<and> fst (approveInvoice None (rejecting 400 unprintable_detail) (Integer 7) world0)
         = Inl TypeError
     \<and> fst (getStats None (rejecting 400 unprintable_detail) world0)
         = Inl TypeError
     \<and> fst (getRecentInvoices None (rejecting 400 unprintable_detail) None world0)
         = Inl TypeError
     \<and> fst (changePassword None (rejecting 400 unprintable_detail) ''abc'' ''old'' ''new'' world0)
         = Inl (Error ''Current password is incorrect'')"
    using status_400_messages
        [where resp = "\<lparr>status = 400, data = unprintable_detail\<rparr>" and srv = "rejecting 400 unprintable_detail"
         and v = "JObj [(''toString'', JNum (Integer 1))]" and e = TypeError and env = None
         and w = world0 and email = "''demo@docbot.com''" and password = "''password''"
         and tok = "''abc''" and userData = "JObj []" and currentPassword = "''old''"
         and newPassword = "''new''" and f = invoice_pdf and params = None
         and invoiceId = "Integer 7" and limit_arg = None]
    by (simp add: rejecting_def unprintable_detail_def dec.simps digit_char_def)
  show ?thesis
    using at_text at_empty at_absent at_number at_unprintable by simp
qed

text \<open>
  Claim C9, as stated: on success \<open>getRecentInvoices\<close> always yields an array, the empty
  one when the \<open>invoices\<close> field is absent or null and exactly the field otherwise. It
  fails: a field that is a non-empty string is returned as it is, a field that is the
  number 0 is replaced by the empty array, and a null body makes the method throw.
\<close>

theorem getRecentInvoices_counterexample:
  "fst (getRecentInvoices None (accepting (JObj [(''invoices'', JStr ''none'')])) None world0)
     = Inr (JStr ''none'')
   \<and> fst (getRecentInvoices None (accepting (JObj [(''invoices'', JNum (Integer 0))])) None world0)
     = Inr (JArr [])
   \<and> fst (getRecentInvoices None (accepting JNull) None world0)
     = Inl (Error ''Failed to get recent invoices'')"
  by (simp add: getRecentInvoices_def axios_def accepting_def invoices_or_empty_def
      getRecentInvoices_catch_def error_or_def)

text \<open>
  Claim C9, amended. When the call succeeds with a body that is not null,
  \<open>getRecentInvoices\<close> yields the empty array if the \<open>invoices\<close> field is falsy (absent,
  null, false, 0, the empty string) and exactly that field if it is truthy, so an array
  whenever the field is an array, absent or falsy; with the argument omitted the request
  goes to \<open>/api/v1/invoices?limit=10\<close>.
\<close>

theorem getRecentInvoices_result:
  assumes "srv (requests w) (getRecentInvoices_request env limit_arg w) = Inr resp"
    and "data resp \<noteq> JNull"
  shows
    "(optional_prop (data resp) ''invoices'' = None
        \<longrightarrow> fst (getRecentInvoices env srv limit_arg w) = Inr (JArr []))
     \<and> (optional_prop (data resp) ''invoices'' = Some JNull
        \<longrightarrow> fst (getRecentInvoices env srv limit_arg w) = Inr (JArr []))
     \<and> (optional_prop (data resp) ''invoices'' = Some (JArr xs)
        \<longrightarrow> fst (getRecentInvoices env srv limit_arg w) = Inr (JArr xs))
     \<and> (optional_prop (data resp) ''invoices'' = Some v \<and> truthy (Some v)
        \<longrightarrow> fst (getRecentInvoices env srv limit_arg w) = Inr v)
     \<and> (optional_prop (data resp) ''invoices'' = Some v \<and> \<not> truthy (Some v)
        \<longrightarrow> fst (getRecentInvoices env srv limit_arg w) = Inr (JArr []))
     \<and> url (getRecentInvoices_request env None w)
        = dashboardService_API_BASE_URL env @ ''/api/v1/invoices?limit=10''"
  using assms
  by (simp add: getRecentInvoices_def axios_def invoices_or_empty_def
      getRecentInvoices_request_def dec_10)

theorem getRecentInvoices_result_witness:
  "fst (getRecentInvoices None (accepting (JObj [(''invoices'', JArr [JNum (Integer 1), JNum (Integer 2)])])) None world0)
     = Inr (JArr [JNum (Integer 1), JNum (Integer 2)])
   \<and> fst (getRecentInvoices None (accepting (JObj [])) None world0) = Inr (JArr [])
   \<and> fst (getRecentInvoices None (accepting (JObj [(''invoices'', JNull)])) None world0)
     = Inr (JArr [])
   \<and> fst (getRecentInvoices None (accepting (JObj [(''invoices'', JBool False)])) None world0)
     = Inr (JArr [])
   \<and> url (getRecentInvoices_request None None world0)
     = ''https://docbot-enterprise-backend.onrender.com/api/v1/invoices?limit=10''"
  using getRecentInvoices_result [where srv = "accepting (JObj [(''invoices'', JArr [JNum (Integer 1), JNum (Integer 2)])])"
      and resp = "\<lparr>status = 200, data = JObj [(''invoices'', JArr [JNum (Integer 1), JNum (Integer 2)])]\<rparr>"
      and w = world0 and env = None and limit_arg = None and xs = "[JNum (Integer 1), JNum (Integer 2)]"
      and v = "JArr [JNum (Integer 1), JNum (Integer 2)]"]
    getRecentInvoices_result [where srv = "accepting (JObj [])"
      and resp = "\<lparr>status = 200, data = JObj []\<rparr>"
      and w = world0 and env = None and limit_arg = None]
    getRecentInvoices_result [where srv = "accepting (JObj [(''invoices'', JNull)])"
      and resp = "\<lparr>status = 200, data = JObj [(''invoices'', JNull)]\<rparr>"
      and w = world0 and env = None and limit_arg = None]
    getRecentInvoices_result [where srv = "accepting (JObj [(''invoices'', JBool False)])"
      and resp = "\<lparr>status = 200, data = JObj [(''invoices'', JBool False)]\<rparr>"
      and w = world0 and env = None and limit_arg = None and v = "JBool False"]
  by (simp add: accepting_def dashboardService_API_BASE_URL_def env_or_def)

text \<open>
  Claim C10, as stated: \<open>getInvoices\<close> leaves out a parameter whose value is falsy, and
  non-zero values are always appended. The second part fails: \<open>NaN\<close> is not zero, it is
  falsy, and a \<open>skip\<close> or \<open>limit\<close> that is \<open>NaN\<close> is left out of the query.
\<close>

theorem getInvoices_NaN_counterexample:
  "NaN \<noteq> Integer 0
   \<and> getInvoices_queryParams (Some \<lparr>skip = Some NaN, limit = Some NaN, status_filter = None\<rparr>)
     = []
   \<and> map url (issued world0 (snd (getInvoices None (accepting JNull)
        (Some \<lparr>skip = Some NaN, limit = Some NaN, status_filter = None\<rparr>) world0)))
     = [''http://localhost:8000/api/v1/invoices?'']"
  by (simp add: getInvoices_queryParams_def getInvoices_world issued_append
      getInvoices_request_def URLSearchParams_toString_def invoiceService_API_BASE_URL_def
      env_or_def)

text \<open>
  Claim C10, amended. \<open>getInvoices\<close> leaves a parameter out of the query string when its
  value is falsy: \<open>skip\<close> or \<open>limit\<close> absent, 0 or \<open>NaN\<close>, \<open>status_filter\<close> absent or
  empty. So the request that asks for offset 0 (or page size 0) is the very request that
  does not mention it. Every other \<open>skip\<close> and \<open>limit\<close> and every non-empty
  \<open>status_filter\<close> is appended under its own name, once, in the order \<open>skip\<close>,
  \<open>limit\<close>, \<open>status_filter\<close>; the URL of the request is the base URL,
  \<open>/api/v1/invoices?\<close> and the appended parameters, form-encoded and joined by \<open>&\<close>; and
  this is the one request the method issues.
\<close>

theorem getInvoices_omits_falsy_parameters:
  "((skip p = None \<or> skip p = Some (Integer 0) \<or> skip p = Some NaN)
        \<longrightarrow> ''skip'' \<notin> fst ` set (getInvoices_queryParams (Some p)))
   \<and> ((limit p = None \<or> limit p = Some (Integer 0) \<or> limit p = Some NaN)
        \<longrightarrow> ''limit'' \<notin> fst ` set (getInvoices_queryParams (Some p)))
   \<and> ((status_filter p = None \<or> status_filter p = Some [])
        \<longrightarrow> ''status_filter'' \<notin> fst ` set (getInvoices_queryParams (Some p)))
   \<and> (skip p = Some a \<and> a \<noteq> Integer 0 \<and> a \<noteq> NaN
        \<longrightarrow> (''skip'', number_toString a) \<in> set (getInvoices_queryParams (Some p)))
   \<and> (limit p = Some b \<and> b \<noteq> Integer 0 \<and> b \<noteq> NaN
        \<longrightarrow> (''limit'', number_toString b) \<in> set (getInvoices_queryParams (Some p)))
   \<and> (status_filter p = Some s \<and> s \<noteq> []
        \<longrightarrow> (''status_filter'', s) \<in> set (getInvoices_queryParams (Some p)))
   \<and> distinct (map fst (getInvoices_queryParams (Some p)))
   \<and> getInvoices_queryParams None = []
   \<and> ((skip p = None \<or> skip p = Some (Integer 0) \<or> skip p = Some NaN)
      \<and> (limit p = None \<or> limit p = Some (Integer 0) \<or> limit p = Some NaN)
      \<and> (status_filter p = None \<or> status_filter p = Some [])
        \<longrightarrow> url (getInvoices_request env (Some p) w)
            = invoiceService_API_BASE_URL env @ ''/api/v1/invoices?'')
   \<and> ((skip p = None \<or> skip p = Some (Integer 0) \<or> skip p = Some NaN)
      \<and> (limit p = None \<or> limit p = Some (Integer 0) \<or> limit p = Some NaN)
      \<and> status_filter p = Some s \<and> s \<noteq> []
        \<longrightarrow> url (getInvoices_request env (Some p) w)
            = invoiceService_API_BASE_URL env @ ''/api/v1/invoices?'' @ ''status_filter='' @ urlencode s)
   \<and> ((skip p = None \<or> skip p = Some (Integer 0) \<or> skip p = Some NaN)
      \<and> limit p = Some b \<and> b \<noteq> Integer 0 \<and> b \<noteq> NaN
      \<and> (status_filter p = None \<or> status_filter p = Some [])
        \<longrightarrow> url (getInvoices_request env (Some p) w)
            = invoiceService_API_BASE_URL env @ ''/api/v1/invoices?'' @ ''limit='' @ urlencode (number_toString b))
   \<and> ((skip p = None \<or> skip p = Some (Integer 0) \<or> skip p = Some NaN)
      \<and> limit p = Some b \<and> b \<noteq> Integer 0 \<and> b \<noteq> NaN
      \<and> status_filter p = Some s \<and> s \<noteq> []
        \<longrightarrow> url (getInvoices_request env (Some p) w)
            = invoiceService_API_BASE_URL env @ ''/api/v1/invoices?'' @ ''limit='' @ urlencode (number_toString b) @ ''&'' @ ''status_filter='' @ urlencode s)
   \<and> (skip p = Some a \<and> a \<noteq> Integer 0 \<and> a \<noteq> NaN
      \<and> (limit p = None \<or> limit p = Some (Integer 0) \<or> limit p = Some NaN)
      \<and> (status_filter p = None \<or> status_filter p = Some [])
        \<longrightarrow> url (getInvoices_request env (Some p) w)
            = invoiceService_API_BASE_URL env @ ''/api/v1/invoices?'' @ ''skip='' @ urlencode (number_toString a))
   \<and> (skip p = Some a \<and> a \<noteq> Integer 0 \<and> a \<noteq> NaN
      \<and> (limit p = None \<or> limit p = Some (Integer 0) \<or> limit p = Some NaN)
      \<and> status_filter p = Some s \<and> s \<noteq> []
        \<longrightarrow> url (getInvoices_request env (Some p) w)
            = invoiceService_API_BASE_URL env @ ''/api/v1/invoices?'' @ ''skip='' @ urlencode (number_toString a) @ ''&'' @ ''status_filter='' @ urlencode s)
   \<and> (skip p = Some a \<and> a \<noteq> Integer 0 \<and> a \<noteq> NaN
      \<and> limit p = Some b \<and> b \<noteq> Integer 0 \<and> b \<noteq> NaN
      \<and> (status_filter p = None \<or> status_filter p = Some [])
        \<longrightarrow> url (getInvoices_request env (Some p) w)
            = invoiceService_API_BASE_URL env @ ''/api/v1/invoices?'' @ ''skip='' @ urlencode (number_toString a) @ ''&'' @ ''limit='' @ urlencode (number_toString b))
   \<and> (skip p = Some a \<and> a \<noteq> Integer 0 \<and> a \<noteq> NaN
      \<and> limit p = Some b \<and> b \<noteq> Integer 0 \<and> b \<noteq> NaN
      \<and> status_filter p = Some s \<and> s \<noteq> []
        \<longrightarrow> url (getInvoices_request env (Some p) w)
            = invoiceService_API_BASE_URL env @ ''/api/v1/invoices?'' @ ''skip='' @ urlencode (number_toString a) @ ''&'' @ ''limit='' @ urlencode (number_toString b) @ ''&'' @ ''status_filter='' @ urlencode s)
   \<and> url (getInvoices_request env None w) = invoiceService_API_BASE_URL env @ ''/api/v1/invoices?''
   \<and> getInvoices_request env (Some (p\<lparr>skip := Some (Integer 0)\<rparr>)) w
       = getInvoices_request env (Some (p\<lparr>skip := None\<rparr>)) w
   \<and> getInvoices_request env (Some (p\<lparr>skip := Some (NaN)\<rparr>)) w
       = getInvoices_request env (Some (p\<lparr>skip := None\<rparr>)) w
   \<and> getInvoices_request env (Some (p\<lparr>limit := Some (Integer 0)\<rparr>)) w
       = getInvoices_request env (Some (p\<lparr>limit := None\<rparr>)) w
   \<and> getInvoices_request env (Some (p\<lparr>limit := Some (NaN)\<rparr>)) w
       = getInvoices_request env (Some (p\<lparr>limit := None\<rparr>)) w
   \<and> getInvoices_request env (Some (p\<lparr>status_filter := Some []\<rparr>)) w
       = getInvoices_request env (Some (p\<lparr>status_filter := None\<rparr>)) w
   \<and> issued w (snd (getInvoices env srv params w)) = [getInvoices_request env params w]"
  by (auto simp add: getInvoices_queryParams_def getInvoices_request_def
      URLSearchParams_toString_def getInvoices_world issued_append number_truthy_iff
      urlencode_skip urlencode_limit urlencode_status_filter split: option.splits)

theorem getInvoices_omits_falsy_parameters_witness:
  "url (getInvoices_request None (Some \<lparr>skip = Some (Integer 0), limit = Some NaN, status_filter = Some []\<rparr>) world0)
       = ''http://localhost:8000/api/v1/invoices?''
   \<and> map url (issued world0 (snd (getInvoices None (accepting JNull) (Some \<lparr>skip = Some (Integer 0), limit = Some NaN, status_filter = Some []\<rparr>) world0)))
       = [''http://localhost:8000/api/v1/invoices?'']
   \<and> ''skip'' \<notin> fst ` set (getInvoices_queryParams (Some \<lparr>skip = Some (Integer 0), limit = Some NaN, status_filter = Some []\<rparr>))
   \<and> ''limit'' \<notin> fst ` set (getInvoices_queryParams (Some \<lparr>skip = Some (Integer 0), limit = Some NaN, status_filter = Some []\<rparr>))
   \<and> ''status_filter'' \<notin> fst ` set (getInvoices_queryParams (Some \<lparr>skip = Some (Integer 0), limit = Some NaN, status_filter = Some []\<rparr>))
   \<and> url (getInvoices_request None (Some \<lparr>skip = Some (Integer 40), limit = Some (Integer 25), status_filter = Some ''needs review/50%''\<rparr>) world0)
       = ''http://localhost:8000/api/v1/invoices?skip=40&limit=25&status_filter=needs+review%2F50%25''
   \<and> map url (issued world0 (snd (getInvoices None (accepting JNull) (Some \<lparr>skip = Some (Integer 40), limit = Some (Integer 25), status_filter = Some ''needs review/50%''\<rparr>) world0)))
       = [''http://localhost:8000/api/v1/invoices?skip=40&limit=25&status_filter=needs+review%2F50%25'']
   \<and> getInvoices_queryParams (Some \<lparr>skip = Some (Integer 40), limit = Some (Integer 25), status_filter = Some ''needs review/50%''\<rparr>)
       = [(''skip'', ''40''), (''limit'', ''25''), (''status_filter'', ''needs review/50%'')]
   \<and> url (getInvoices_request None (Some \<lparr>skip = None, limit = Some (Integer 0), status_filter = Some ''needs review/50%''\<rparr>) world0)
       = ''http://localhost:8000/api/v1/invoices?status_filter=needs+review%2F50%25''
   \<and> map url (issued world0 (snd (getInvoices None (accepting JNull) (Some \<lparr>skip = None, limit = Some (Integer 0), status_filter = Some ''needs review/50%''\<rparr>) world0)))
       = [''http://localhost:8000/api/v1/invoices?status_filter=needs+review%2F50%25'']
   \<and> url (getInvoices_request None (Some \<lparr>skip = Some (Other ''1e+21''), limit = Some (Integer (- 3)), status_filter = None\<rparr>) world0)
       = ''http://localhost:8000/api/v1/invoices?skip=1e%2B21&limit=-3''
   \<and> map url (issued world0 (snd (getInvoices None (accepting JNull) (Some \<lparr>skip = Some (Other ''1e+21''), limit = Some (Integer (- 3)), status_filter = None\<rparr>) world0)))
       = [''http://localhost:8000/api/v1/invoices?skip=1e%2B21&limit=-3'']"
proof -
  have at_none:
    "url (getInvoices_request None (Some \<lparr>skip = Some (Integer 0), limit = Some NaN, status_filter = Some []\<rparr>) world0)
         = ''http://localhost:8000/api/v1/invoices?''
     \<and> map url (issued world0 (snd (getInvoices None (accepting JNull) (Some \<lparr>skip = Some (Integer 0), limit = Some NaN, status_filter = Some []\<rparr>) world0)))
         = [''http://localhost:8000/api/v1/invoices?'']
     \<and> ''skip'' \<notin> fst ` set (getInvoices_queryParams (Some \<lparr>skip = Some (Integer 0), limit = Some NaN, status_filter = Some []\<rparr>))
     \<and> ''limit'' \<notin> fst ` set (getInvoices_queryParams (Some \<lparr>skip = Some (Integer 0), limit = Some NaN, status_filter = Some []\<rparr>))
     \<and> ''status_filter'' \<notin> fst ` set (getInvoices_queryParams (Some \<lparr>skip = Some (Integer 0), limit = Some NaN, status_filter = Some []\<rparr>))"
    using getInvoices_omits_falsy_parameters
        [where p = "\<lparr>skip = Some (Integer 0), limit = Some NaN, status_filter = Some []\<rparr>"
         and params = "Some \<lparr>skip = Some (Integer 0), limit = Some NaN, status_filter = Some []\<rparr>"
         and a = "NaN" and b = "NaN" and s = "[]"
         and env = None and w = world0 and srv = "accepting JNull"]
    by (simp add: getInvoices_request_def getInvoices_queryParams_def
        URLSearchParams_toString_def number_toString_examples number_toString.simps(2,3)
        urlencode_examples urlencode_skip urlencode_limit urlencode_status_filter
        invoiceService_API_BASE_URL_def env_or_def InvoiceService_getAuthHeaders_def
        del: number_toString.simps(1))
  have at_every:
    "url (getInvoices_request None (Some \<lparr>skip = Some (Integer 40), limit = Some (Integer 25), status_filter = Some ''needs review/50%''\<rparr>) world0)
         = ''http://localhost:8000/api/v1/invoices?skip=40&limit=25&status_filter=needs+review%2F50%25''
     \<and> map url (issued world0 (snd (getInvoices None (accepting JNull) (Some \<lparr>skip = Some (Integer 40), limit = Some (Integer 25), status_filter = Some ''needs review/50%''\<rparr>) world0)))
         = [''http://localhost:8000/api/v1/invoices?skip=40&limit=25&status_filter=needs+review%2F50%25'']
     \<and> getInvoices_queryParams (Some \<lparr>skip = Some (Integer 40), limit = Some (Integer 25), status_filter = Some ''needs review/50%''\<rparr>)
         = [(''skip'', ''40''), (''limit'', ''25''), (''status_filter'', ''needs review/50%'')]"
    using getInvoices_omits_falsy_parameters
        [where p = "\<lparr>skip = Some (Integer 40), limit = Some (Integer 25), status_filter = Some ''needs review/50%''\<rparr>"
         and params = "Some \<lparr>skip = Some (Integer 40), limit = Some (Integer 25), status_filter = Some ''needs review/50%''\<rparr>"
         and a = "Integer 40" and b = "Integer 25" and s = "''needs review/50%''"
         and env = None and w = world0 and srv = "accepting JNull"]
    by (simp add: getInvoices_request_def getInvoices_queryParams_def
        URLSearchParams_toString_def number_toString_examples number_toString.simps(2,3)
        urlencode_examples urlencode_skip urlencode_limit urlencode_status_filter
        invoiceService_API_BASE_URL_def env_or_def InvoiceService_getAuthHeaders_def
        del: number_toString.simps(1))
  have at_text_only:
    "url (getInvoices_request None (Some \<lparr>skip = None, limit = Some (Integer 0), status_filter = Some ''needs review/50%''\<rparr>) world0)
         = ''http://localhost:8000/api/v1/invoices?status_filter=needs+review%2F50%25''
     \<and> map url (issued world0 (snd (getInvoices None (accepting JNull) (Some \<lparr>skip = None, limit = Some (Integer 0), status_filter = Some ''needs review/50%''\<rparr>) world0)))
         = [''http://localhost:8000/api/v1/invoices?status_filter=needs+review%2F50%25'']"
    using getInvoices_omits_falsy_parameters
        [where p = "\<lparr>skip = None, limit = Some (Integer 0), status_filter = Some ''needs review/50%''\<rparr>"
         and params = "Some \<lparr>skip = None, limit = Some (Integer 0), status_filter = Some ''needs review/50%''\<rparr>"
         and a = "NaN" and b = "NaN" and s = "''needs review/50%''"
         and env = None and w = world0 and srv = "accepting JNull"]
    by (simp add: getInvoices_request_def getInvoices_queryParams_def
        URLSearchParams_toString_def number_toString_examples number_toString.simps(2,3)
        urlencode_examples urlencode_skip urlencode_limit urlencode_status_filter
        invoiceService_API_BASE_URL_def env_or_def InvoiceService_getAuthHeaders_def
        del: number_toString.simps(1))
  have at_numbers:
    "url (getInvoices_request None (Some \<lparr>skip = Some (Other ''1e+21''), limit = Some (Integer (- 3)), status_filter = None\<rparr>) world0)
         = ''http://localhost:8000/api/v1/invoices?skip=1e%2B21&limit=-3''
     \<and> map url (issued world0 (snd (getInvoices None (accepting JNull) (Some \<lparr>skip = Some (Other ''1e+21''), limit = Some (Integer (- 3)), status_filter = None\<rparr>) world0)))
         = [''http://localhost:8000/api/v1/invoices?skip=1e%2B21&limit=-3'']"
    using getInvoices_omits_falsy_parameters
        [where p = "\<lparr>skip = Some (Other ''1e+21''), limit = Some (Integer (- 3)), status_filter = None\<rparr>"
         and params = "Some \<lparr>skip = Some (Other ''1e+21''), limit = Some (Integer (- 3)), status_filter = None\<rparr>"
         and a = "Other ''1e+21''" and b = "Integer (- 3)" and s = "[]"
         and env = None and w = world0 and srv = "accepting JNull"]
    by (simp add: getInvoices_request_def getInvoices_queryParams_def
        URLSearchParams_toString_def number_toString_examples number_toString.simps(2,3)
        urlencode_examples urlencode_skip urlencode_limit urlencode_status_filter
        invoiceService_API_BASE_URL_def env_or_def InvoiceService_getAuthHeaders_def
        del: number_toString.simps(1))
  show ?thesis
    using at_none at_every at_text_only at_numbers by simp
qed

section \<open>The InvoiceUpload page\<close>

text \<open>
  Claim C3. Invoked with an empty list of selected files, \<open>handleUpload\<close> shows the error
  notification \<open>Please select at least one file to upload\<close>, issues no request, and leaves
  the file list, \<open>uploading\<close> and \<open>uploadProgress\<close> as they were. With a non-empty list
  it issues exactly the upload requests of the selected files, one
  \<open>invoiceService.uploadInvoice\<close> call for each, in the order of the list, whatever the
  server answers.
\<close>

theorem handleUpload_uploads_each_file_once:
  "(files st = [] \<longrightarrow>
      fst (handleUpload env srv st w) = st
      \<and> issued w (snd (handleUpload env srv st w)) = []
      \<and> notifications (snd (handleUpload env srv st w))
          = notifications w @ [(''Please select at least one file to upload'', ''error'')])
   \<and> (files st \<noteq> [] \<longrightarrow>
      issued w (snd (handleUpload env srv st w))
        = map (\<lambda>u. uploadInvoice_request env (ufile u) w) (files st))"
proof (intro conjI impI)
  assume e: "files st = []"
  show "fst (handleUpload env srv st w) = st"
    using e by (simp add: handleUpload_def)
  show "issued w (snd (handleUpload env srv st w)) = []"
    using e by (simp add: handleUpload_def issued_def showNotification_def)
  show "notifications (snd (handleUpload env srv st w))
          = notifications w @ [(''Please select at least one file to upload'', ''error'')]"
    using e by (simp add: handleUpload_def showNotification_def)
next
  assume "files st \<noteq> []"
  then show "issued w (snd (handleUpload env srv st w))
        = map (\<lambda>u. uploadInvoice_request env (ufile u) w) (files st)"
    by (simp add: handleUpload_requests issued_def)
qed

theorem handleUpload_uploads_each_file_once_witness:
  "fst (handleUpload None (accepting (JObj [])) no_file_selected signed_in) = no_file_selected
   \<and> issued signed_in (snd (handleUpload None (accepting (JObj [])) no_file_selected signed_in)) = []
   \<and> notifications (snd (handleUpload None (accepting (JObj [])) no_file_selected signed_in))
      = [(''Please select at least one file to upload'', ''error'')]
   \<and> map body (issued signed_in
        (snd (handleUpload None (accepting (JObj [])) two_files_selected signed_in)))
      = [FormData [(''file'', invoice_pdf)],
         FormData [(''file'',
           \<lparr>file_name = ''scan.png'', file_type = ''image/png'', file_size = 2048\<rparr>)]]"
  using handleUpload_uploads_each_file_once
      [where st = no_file_selected and w = signed_in and env = None and srv = "accepting (JObj [])"]
    handleUpload_uploads_each_file_once
      [where st = two_files_selected and w = signed_in and env = None and srv = "accepting (JObj [])"]
  by (simp add: no_file_selected_def two_files_selected_def signed_in_def
      uploadInvoice_request_def)

section \<open>The AuthProvider\<close>

text \<open>
  Claim C6. \<open>logout\<close> sets \<open>user\<close> and \<open>token\<close> to null and removes \<open>docbot_token\<close> from
  \<open>localStorage\<close>; the fetched user is discarded with it. Nothing else changes:
  \<open>loading\<close> keeps its value, every other \<open>localStorage\<close> key keeps its entry, and no
  request, notification or navigation is made.
\<close>

theorem logout_clears_user_token_and_stored_token:
  "user (fst (logout s w)) = None
   \<and> token (fst (logout s w)) = None
   \<and> localStorage (snd (logout s w)) ''docbot_token'' = None
   \<and> loading (fst (logout s w)) = loading s
   \<and> (\<forall>k. k \<noteq> ''docbot_token'' \<longrightarrow> localStorage (snd (logout s w)) k = localStorage w k)
   \<and> requests (snd (logout s w)) = requests w
   \<and> notifications (snd (logout s w)) = notifications w
   \<and> location (snd (logout s w)) = location w"
  by (simp add: logout_def)

theorem logout_clears_user_token_and_stored_token_witness:
  "user (fst (logout signed_in_user signed_in)) = None
   \<and> token (fst (logout signed_in_user signed_in)) = None
   \<and> localStorage (snd (logout signed_in_user signed_in)) ''docbot_token'' = None
   \<and> loading (fst (logout signed_in_user signed_in)) = False
   \<and> localStorage (snd (logout signed_in_user signed_in)) ''theme'' = Some ''dark''
   \<and> location (snd (logout signed_in_user signed_in)) = ''/upload''"
  using logout_clears_user_token_and_stored_token [of signed_in_user signed_in]
  by (simp add: signed_in_user_def signed_in_def)

section \<open>A 401 in the pages\<close>




section \<open>The demo Dashboard\<close>

text \<open>
  Claim C8, as stated: every render of the demo Dashboard displays the constant
  statistics. It fails at the first render: the state is still null there, and the
  component shows the placeholder.
\<close>

theorem demo_Dashboard_first_render_counterexample:
  "Dashboard_render (hd Dashboard_states) = Placeholder ''Loading dashboard data...''
   \<and> Dashboard_render (hd Dashboard_states)
      \<noteq> Cards [(''Total Invoices'', ''47''), (''Pending Review'', ''8''),
                (''Total Amount'', ''$23456.78'')]"
  by (simp add: Dashboard_states_def Dashboard_initial_def Dashboard_render_def)

text \<open>
  Claim C8, amended. The mount effect stores the constants \<open>total_invoices = 47\<close>,
  \<open>pending_review = 8\<close>, \<open>approved_invoices = 39\<close>, \<open>total_amount = "23456.78"\<close>, whatever
  the state was and with no request to a backend; every render after it displays
  Total Invoices 47, Pending Review 8 and Total Amount \<open>$23456.78\<close>
  (\<open>approved_invoices\<close> is stored and not displayed). The first render, before the
  effect, shows \<open>Loading dashboard data...\<close>.
\<close>

theorem demo_Dashboard_mock_statistics:
  "Dashboard_effect s
     = Some \<lparr>total_invoices = Integer 47, pending_review = Integer 8,
             approved_invoices = Integer 39, total_amount = ''23456.78''\<rparr>
   \<and> Dashboard_render (Dashboard_effect s)
     = Cards [(''Total Invoices'', ''47''), (''Pending Review'', ''8''),
              (''Total Amount'', ''$23456.78'')]
   \<and> Dashboard_render Dashboard_initial = Placeholder ''Loading dashboard data...''
   \<and> map Dashboard_render Dashboard_states
     = [Placeholder ''Loading dashboard data...'',
        Cards [(''Total Invoices'', ''47''), (''Pending Review'', ''8''),
               (''Total Amount'', ''$23456.78'')]]"
  by (simp add: Dashboard_effect_def Dashboard_render_def Dashboard_initial_def
      Dashboard_states_def dec.simps digit_char_def)

end
